theory Spec2Isabelle
  imports Main "HOL-Library.Word"
begin

section \<open>Data model\<close>

text \<open>
  The repository holds three FastAPI servers with the same routes:
  \<^verbatim>\<open>bg-removal-server.py\<close> (prefix \<open>v1_\<close>: rembg, session created when the module
  is loaded), \<^verbatim>\<open>bg-removal-server-v2.py\<close> (prefix \<open>v2_\<close>: rembg, session created on
  first use) and \<^verbatim>\<open>withoutbg-server.py\<close> (prefix \<open>wbg_\<close>: withoutBG, model created
  on first use by \<open>get_model\<close>). Every handler is a \<^verbatim>\<open>try\<close> block around
  a straight-line body, with \<^verbatim>\<open>except Exception\<close> at the end. A handler is modelled
  as a function from the module globals and the request to the outcome (the response
  returned, or the exception that leaves the handler) and the new globals.
  Calls of \<^verbatim>\<open>logger\<close> have no effect on any result and are left out.
\<close>

type_synonym bytes = "8 word list"

text \<open>
  Exceptions as values. \<open>HTTPException status_code detail\<close> is FastAPI's exception (a
  subclass of \<^verbatim>\<open>Exception\<close>), \<open>HTTPStatusError code\<close> is what httpx's
  \<^verbatim>\<open>raise_for_status\<close> raises, \<open>UnicodeEncodeError\<close> is what \<^verbatim>\<open>str.encode\<close> raises,
  and \<open>Exception m\<close> stands for any other exception raised by a library call.
\<close>

datatype exn = HTTPException nat string | HTTPStatusError nat | UnicodeEncodeError
  | Exception string

text \<open>\<^verbatim>\<open>fastapi.responses.Response(content, media_type, headers)\<close>; status 200 by default.\<close>

record response =
  status_code :: nat
  content :: bytes
  media_type :: string
  headers :: "(string \<times> string) list"

text \<open>
  A Python \<^verbatim>\<open>str\<close> whose characters may lie outside Latin-1 is the list of its
  Unicode code points; \<open>py_str_of\<close> reads an 8-bit literal as one.
\<close>

type_synonym py_str = "nat list"

definition py_str_of :: "string \<Rightarrow> py_str" where
  "py_str_of s = map of_char s"

text \<open>
  \<^verbatim>\<open>UploadFile\<close>: \<open>file_read\<close> is what \<^verbatim>\<open>await file.read()\<close> returns; the file
  name is the text the client sent, any Unicode text.
\<close>

record UploadFile =
  filename :: "py_str option"
  content_type :: "string option"
  file_read :: bytes

text \<open>The pydantic request bodies; both have the optional field \<open>bgcolor\<close>.\<close>

record BgRequest =
  bgcolor :: "int list option"

record ImageUrlRequest = BgRequest +
  image_url :: string

record ImageBase64Request = BgRequest +
  image_base64 :: string

text \<open>What \<^verbatim>\<open>client.get\<close> of httpx returns, as far as the handlers read it.\<close>

record httpx_response =
  httpx_status :: nat
  httpx_content :: bytes

text \<open>
  A decoded bitmap (a PIL image): its mode string, its size (width, height), its pixels
  row by row, each as the colour and opacity (R, G, B, A) it shows, and the file format
  it was decoded from (none for an image built in memory).
\<close>

type_synonym pixel = "int \<times> int \<times> int \<times> int"

record image =
  mode :: string
  size_px :: "nat \<times> nat"
  pixels :: "pixel list"
  format :: "string option"

text \<open>
  The calls a handler makes to the outside, recorded in order of execution: creating the
  model session (with whether the call returned one), running the model, and an HTTP GET
  with its timeout in seconds.
\<close>

datatype event = ModelInit bool | ModelRun | HttpGet string nat

record ghost =
  trace :: "event list"

text \<open>Module globals: \<^verbatim>\<open>session\<close> of the rembg servers, \<^verbatim>\<open>model\<close> of withoutBG.\<close>

record 's v1_globals = ghost +
  v1_session :: 's

record 's v2_globals = ghost +
  session :: "'s option"

record 's wbg_globals = ghost +
  model :: "'s option"

text \<open>
  The libraries the servers call, as parameters: Python's \<^verbatim>\<open>str(e)\<close>, httpx's GET
  (URL, timeout in seconds), \<^verbatim>\<open>base64.b64decode\<close>, PIL's \<^verbatim>\<open>Image.open\<close> and
  \<^verbatim>\<open>Image.save\<close> (format, quality), rembg's \<^verbatim>\<open>new_session\<close> and
  \<^verbatim>\<open>remove\<close> (on bytes and on a PIL image), withoutBG's \<^verbatim>\<open>WithoutBG.opensource\<close>
  and \<^verbatim>\<open>remove_background\<close>. Each either returns or raises.
\<close>

record 's env =
  str :: "exn \<Rightarrow> string"
  http_get :: "string \<Rightarrow> nat \<Rightarrow> exn + httpx_response"
  b64decode :: "string \<Rightarrow> exn + bytes"
  Image_open :: "bytes \<Rightarrow> exn + image"
  Image_save :: "image \<Rightarrow> string \<Rightarrow> nat option \<Rightarrow> exn + bytes"
  new_session :: "string \<Rightarrow> exn + 's"
  remove_bytes :: "bytes \<Rightarrow> 's \<Rightarrow> exn + bytes"
  remove_image :: "image \<Rightarrow> 's \<Rightarrow> exn + image"
  WithoutBG_opensource :: "exn + 's"
  model_remove_background :: "'s \<Rightarrow> image \<Rightarrow> exn + image"

section \<open>Shared pieces of the handlers\<close>

text \<open>
  The end of every handler:
  \<^verbatim>\<open>except Exception as e: raise HTTPException(status_code=500, detail=f"Processing failed: {str(e)}")\<close>.
  It catches every exception of the body, \<open>HTTPException\<close> included.
\<close>

definition except_Exception :: "'s env \<Rightarrow> exn + response \<Rightarrow> exn + response" where
  "except_Exception env r =
     (case r of
        Inl e \<Rightarrow> Inl (HTTPException 500 (''Processing failed: '' @ str env e))
      | Inr resp \<Rightarrow> Inr resp)"

text \<open>
  What the client sees: FastAPI answers an \<open>HTTPException\<close> with its status code and
  its detail, any other exception with 500, and a returned response as it is.
\<close>

fun http_status :: "exn + response \<Rightarrow> nat" where
  "http_status (Inr resp) = status_code resp"
| "http_status (Inl (HTTPException c d)) = c"
| "http_status (Inl e) = 500"

fun http_detail :: "exn + response \<Rightarrow> string option" where
  "http_detail (Inl (HTTPException c d)) = Some d"
| "http_detail r = None"

text \<open>Python's truth value of an \<^verbatim>\<open>Optional[List[int]]\<close>: false for None and for [].\<close>

fun truthy :: "int list option \<Rightarrow> bool" where
  "truthy None = False"
| "truthy (Some xs) = (xs \<noteq> [])"

text \<open>\<^verbatim>\<open>f"{file.filename}"\<close>: None is printed as the word None.\<close>

fun fstring :: "py_str option \<Rightarrow> py_str" where
  "fstring None = py_str_of ''None''"
| "fstring (Some s) = s"

text \<open>
  \<^verbatim>\<open>s.encode("latin-1")\<close>: the bytes of a text whose code points are all below 256,
  \<open>UnicodeEncodeError\<close> otherwise.
\<close>

definition encode_latin1 :: "py_str \<Rightarrow> exn + string" where
  "encode_latin1 s =
     (if list_all (\<lambda>c. c < 256) s then Inr (map char_of s) else Inl UnicodeEncodeError)"

text \<open>
  The response of the upload route, lines 84-90 of the first server:
  \<^verbatim>\<open>Response(content=output_data, media_type="image/png",
    headers={"Content-Disposition": f'inline; filename="processed_{file.filename}"'})\<close>.
  The constructor (Starlette's \<^verbatim>\<open>Response.__init__\<close>) encodes every header value as
  Latin-1, so building the response raises when the file name has a character above
  U+00FF. The call stands inside the \<^verbatim>\<open>try\<close> block of the handler.
\<close>

definition upload_response :: "bytes \<Rightarrow> UploadFile \<Rightarrow> exn + response" where
  "upload_response output_data file =
     (case encode_latin1
             (py_str_of ''inline; filename=\"processed_'' @ fstring (filename file)
              @ py_str_of ''\"'') of
        Inl e \<Rightarrow> Inl e
      | Inr v \<Rightarrow>
          Inr \<lparr>status_code = 200, content = output_data, media_type = ''image/png'',
               headers = [(''Content-Disposition'', v)]\<rparr>)"

text \<open>
  Modelled from the spec: httpx's \<^verbatim>\<open>response.raise_for_status()\<close>, which is not in
  the repository ("fail with an upstream error if the fetch fails or returns a
  non-success status"): success is a status from 200 to 299.
\<close>

definition raise_for_status :: "httpx_response \<Rightarrow> exn + httpx_response" where
  "raise_for_status r =
     (if 200 \<le> httpx_status r \<and> httpx_status r < 300 then Inr r
      else Inl (HTTPStatusError (httpx_status r)))"

text \<open>
  The fetch of the URL routes:
  \<^verbatim>\<open>async with httpx.AsyncClient(timeout=30.0) as client:
      response = await client.get(image_url); response.raise_for_status(); input_data = response.content\<close>
\<close>

definition fetch :: "'s env \<Rightarrow> string \<Rightarrow> ('g::type) ghost_scheme \<Rightarrow> (exn + bytes) \<times> 'g ghost_scheme" where
  "fetch env url g =
     (let g1 = g\<lparr>trace := trace g @ [HttpGet url 30]\<rparr> in
      case http_get env url 30 of
        Inl e \<Rightarrow> (Inl e, g1)
      | Inr resp \<Rightarrow>
          (case raise_for_status resp of
             Inl e \<Rightarrow> (Inl e, g1)
           | Inr r \<Rightarrow> (Inr (httpx_content r), g1)))"

subsection \<open>Compositing on a background colour\<close>

text \<open>
  Modelled from the spec: the PIL operations of the compositing step, which are not in
  the repository (section 4.3: "Convert the foreground result to RGBA if not already.
  Construct a solid-color RGBA canvas of identical size using the supplied RGB and
  optional alpha. Alpha-composite the foreground over this canvas (standard over
  operator: result = fg * fg_alpha + bg * (1 - fg_alpha), per channel). Flatten to an
  opaque color image (drop alpha)"). Channels run from 0 to 255, so the opacity
  fg_alpha is a / 255.
\<close>

definition Image_new :: "string \<Rightarrow> nat \<times> nat \<Rightarrow> pixel \<Rightarrow> image" where
  "Image_new m sz colour =
     \<lparr>mode = m, size_px = sz, pixels = replicate (fst sz * snd sz) colour, format = None\<rparr>"

fun drop_alpha :: "pixel \<Rightarrow> pixel" where
  "drop_alpha (r, g, b, a) = (r, g, b, 255)"

definition convert :: "image \<Rightarrow> string \<Rightarrow> image" where
  "convert im m =
     (if m = ''RGB'' then im\<lparr>mode := m, pixels := map drop_alpha (pixels im), format := None\<rparr>
      else im\<lparr>mode := m, format := None\<rparr>)"

definition blend :: "int \<Rightarrow> int \<Rightarrow> int \<Rightarrow> int" where
  "blend fg bg a = (fg * a + bg * (255 - a)) div 255"

fun over :: "pixel \<Rightarrow> pixel \<Rightarrow> pixel" where
  "over (br, bg, bb, ba) (fr, fg, fb, fa) =
     (blend fr br fa, blend fg bg fa, blend fb bb fa, blend 255 ba fa)"

definition alpha_composite :: "image \<Rightarrow> image \<Rightarrow> exn + image" where
  "alpha_composite im1 im2 =
     (if mode im1 \<noteq> ''RGBA'' \<or> mode im2 \<noteq> ''RGBA'' \<or> size_px im1 \<noteq> size_px im2
      then Inl (Exception ''images do not match'')
      else Inr \<lparr>mode = ''RGBA'', size_px = size_px im1,
                pixels = map2 over (pixels im1) (pixels im2), format = None\<rparr>)"

text \<open>
  The compositing block of the URL and base64 routes (lines 152-170 and 225-243 of the
  second server, 163-180 and 228-245 of the withoutBG server; the four copies are the
  same): \<^verbatim>\<open>if request.bgcolor and len(request.bgcolor) >= 3: ...\<close>
\<close>

definition composite_bgcolor :: "int list option \<Rightarrow> image \<Rightarrow> exn + image" where
  "composite_bgcolor bgc output_image =
     (case bgc of
        None \<Rightarrow> Inr output_image
      | Some c \<Rightarrow>
          if c \<noteq> [] \<and> length c \<ge> 3 then
            (let alpha = (if length c > 3 then c ! 3 else 255);
                 output_image1 =
                   (if mode output_image \<noteq> ''RGBA'' then convert output_image ''RGBA''
                    else output_image);
                 background = Image_new ''RGBA'' (size_px output_image1) (c ! 0, c ! 1, c ! 2, alpha)
             in case alpha_composite background output_image1 of
                  Inl e \<Rightarrow> Inl e
                | Inr output_image2 \<Rightarrow> Inr (convert output_image2 ''RGB''))
          else Inr output_image)"

text \<open>
  The encoding block that follows it (lines 174-185 of the second server):
  \<^verbatim>\<open>format_type = "JPEG" if request.bgcolor else "PNG"
  output_image.save(output_buffer, format=format_type, quality=95)
  media_type = "image/jpeg" if request.bgcolor else "image/png"\<close>
\<close>

definition encode_response :: "'s env \<Rightarrow> int list option \<Rightarrow> image \<Rightarrow> exn + response" where
  "encode_response env bgc output_image =
     (let format_type = (if truthy bgc then ''JPEG'' else ''PNG'') in
      case Image_save env output_image format_type (Some 95) of
        Inl e \<Rightarrow> Inl e
      | Inr output_bytes \<Rightarrow>
          Inr \<lparr>status_code = 200, content = output_bytes,
               media_type = (if truthy bgc then ''image/jpeg'' else ''image/png''),
               headers = []\<rparr>)"

definition composite_and_encode :: "'s env \<Rightarrow> int list option \<Rightarrow> image \<Rightarrow> exn + response" where
  "composite_and_encode env bgc output_image =
     (case composite_bgcolor bgc output_image of
        Inl e \<Rightarrow> Inl e
      | Inr im \<Rightarrow> encode_response env bgc im)"

section \<open>First server: session created when the module is loaded\<close>

definition v1_remove_background_body ::
  "'s env \<Rightarrow> 's v1_globals \<Rightarrow> UploadFile \<Rightarrow> (exn + response) \<times> 's v1_globals" where
  "v1_remove_background_body env g file =
     (let input_data = file_read file in
      if length input_data > 10 * 1024 * 1024
      then (Inl (HTTPException 400 ''File too large (max 10MB)''), g)
      else
        (let g1 = g\<lparr>trace := trace g @ [ModelRun]\<rparr> in
         case remove_bytes env input_data (v1_session g) of
           Inl e \<Rightarrow> (Inl e, g1)
         | Inr output_data \<Rightarrow> (upload_response output_data file, g1)))"

definition v1_remove_background ::
  "'s env \<Rightarrow> 's v1_globals \<Rightarrow> UploadFile \<Rightarrow> (exn + response) \<times> 's v1_globals" where
  "v1_remove_background env g file =
     (case v1_remove_background_body env g file of (r, g') \<Rightarrow> (except_Exception env r, g'))"

section \<open>Second server: session created on first use\<close>

text \<open>
  The block each handler of the second server repeats before it runs the model:
  \<^verbatim>\<open>global session
  if session is None: session = new_session("u2netp")\<close>
\<close>

definition v2_init_session :: "'s env \<Rightarrow> 's v2_globals \<Rightarrow> (exn + 's) \<times> 's v2_globals" where
  "v2_init_session env g =
     (case session g of
        Some s \<Rightarrow> (Inr s, g)
      | None \<Rightarrow>
          (case new_session env ''u2netp'' of
             Inl e \<Rightarrow> (Inl e, g\<lparr>trace := trace g @ [ModelInit False]\<rparr>)
           | Inr s \<Rightarrow> (Inr s, g\<lparr>trace := trace g @ [ModelInit True], session := Some s\<rparr>)))"

definition v2_remove_background_body ::
  "'s env \<Rightarrow> 's v2_globals \<Rightarrow> UploadFile \<Rightarrow> (exn + response) \<times> 's v2_globals" where
  "v2_remove_background_body env g file =
     (let input_data = file_read file in
      if length input_data > 10 * 1024 * 1024
      then (Inl (HTTPException 400 ''File too large (max 10MB)''), g)
      else
        (case v2_init_session env g of
           (Inl e, g1) \<Rightarrow> (Inl e, g1)
         | (Inr s, g1) \<Rightarrow>
             (let g2 = g1\<lparr>trace := trace g1 @ [ModelRun]\<rparr> in
              case remove_bytes env input_data s of
                Inl e \<Rightarrow> (Inl e, g2)
              | Inr output_data \<Rightarrow> (upload_response output_data file, g2))))"

definition v2_remove_background ::
  "'s env \<Rightarrow> 's v2_globals \<Rightarrow> UploadFile \<Rightarrow> (exn + response) \<times> 's v2_globals" where
  "v2_remove_background env g file =
     (case v2_remove_background_body env g file of (r, g') \<Rightarrow> (except_Exception env r, g'))"

text \<open>
  The part the URL and base64 handlers of the second server share, from
  \<^verbatim>\<open>image = Image.open(BytesIO(input_data))\<close> to the response.
\<close>

definition v2_process ::
  "'s env \<Rightarrow> 's v2_globals \<Rightarrow> int list option \<Rightarrow> bytes \<Rightarrow> (exn + response) \<times> 's v2_globals" where
  "v2_process env g bgc input_data =
     (case Image_open env input_data of
        Inl e \<Rightarrow> (Inl e, g)
      | Inr im \<Rightarrow>
          (case v2_init_session env g of
             (Inl e, g1) \<Rightarrow> (Inl e, g1)
           | (Inr s, g1) \<Rightarrow>
               (let g2 = g1\<lparr>trace := trace g1 @ [ModelRun]\<rparr> in
                case remove_image env im s of
                  Inl e \<Rightarrow> (Inl e, g2)
                | Inr output_image \<Rightarrow> (composite_and_encode env bgc output_image, g2))))"

definition v2_remove_background_from_url_body ::
  "'s env \<Rightarrow> 's v2_globals \<Rightarrow> ImageUrlRequest \<Rightarrow> (exn + response) \<times> 's v2_globals" where
  "v2_remove_background_from_url_body env g request =
     (case fetch env (image_url request) g of
        (Inl e, g1) \<Rightarrow> (Inl e, g1)
      | (Inr input_data, g1) \<Rightarrow> v2_process env g1 (bgcolor request) input_data)"

definition v2_remove_background_from_url ::
  "'s env \<Rightarrow> 's v2_globals \<Rightarrow> ImageUrlRequest \<Rightarrow> (exn + response) \<times> 's v2_globals" where
  "v2_remove_background_from_url env g request =
     (case v2_remove_background_from_url_body env g request of
        (r, g') \<Rightarrow> (except_Exception env r, g'))"

definition v2_remove_background_from_base64_body ::
  "'s env \<Rightarrow> 's v2_globals \<Rightarrow> ImageBase64Request \<Rightarrow> (exn + response) \<times> 's v2_globals" where
  "v2_remove_background_from_base64_body env g request =
     (case b64decode env (image_base64 request) of
        Inl e \<Rightarrow> (Inl e, g)
      | Inr image_bytes \<Rightarrow> v2_process env g (bgcolor request) image_bytes)"

definition v2_remove_background_from_base64 ::
  "'s env \<Rightarrow> 's v2_globals \<Rightarrow> ImageBase64Request \<Rightarrow> (exn + response) \<times> 's v2_globals" where
  "v2_remove_background_from_base64 env g request =
     (case v2_remove_background_from_base64_body env g request of
        (r, g') \<Rightarrow> (except_Exception env r, g'))"

section \<open>withoutBG server: model created on first use\<close>

text \<open>
  \<^verbatim>\<open>def get_model(): global model
      if model is None: model = WithoutBG.opensource()
      return model\<close>
\<close>

definition get_model :: "'s env \<Rightarrow> 's wbg_globals \<Rightarrow> (exn + 's) \<times> 's wbg_globals" where
  "get_model env g =
     (case model g of
        Some m \<Rightarrow> (Inr m, g)
      | None \<Rightarrow>
          (case WithoutBG_opensource env of
             Inl e \<Rightarrow> (Inl e, g\<lparr>trace := trace g @ [ModelInit False]\<rparr>)
           | Inr m \<Rightarrow> (Inr m, g\<lparr>trace := trace g @ [ModelInit True], model := Some m\<rparr>)))"

text \<open>
  Lines 93-98 of the withoutBG server, which its three handlers share:
  \<^verbatim>\<open>image = Image.open(BytesIO(input_data)); bg_model = get_model()
  output_image = bg_model.remove_background(image)\<close>
\<close>

definition wbg_run_model ::
  "'s env \<Rightarrow> 's wbg_globals \<Rightarrow> bytes \<Rightarrow> (exn + image) \<times> 's wbg_globals" where
  "wbg_run_model env g input_data =
     (case Image_open env input_data of
        Inl e \<Rightarrow> (Inl e, g)
      | Inr im \<Rightarrow>
          (case get_model env g of
             (Inl e, g1) \<Rightarrow> (Inl e, g1)
           | (Inr bg_model, g1) \<Rightarrow>
               (model_remove_background env bg_model im, g1\<lparr>trace := trace g1 @ [ModelRun]\<rparr>)))"

definition wbg_remove_background_body ::
  "'s env \<Rightarrow> 's wbg_globals \<Rightarrow> UploadFile \<Rightarrow> (exn + response) \<times> 's wbg_globals" where
  "wbg_remove_background_body env g file =
     (let input_data = file_read file in
      if length input_data > 10 * 1024 * 1024
      then (Inl (HTTPException 400 ''File too large (max 10MB)''), g)
      else
        (case wbg_run_model env g input_data of
           (Inl e, g1) \<Rightarrow> (Inl e, g1)
         | (Inr output_image, g1) \<Rightarrow>
             (case Image_save env output_image ''PNG'' None of
                Inl e \<Rightarrow> (Inl e, g1)
              | Inr output_bytes \<Rightarrow> (upload_response output_bytes file, g1))))"

definition wbg_remove_background ::
  "'s env \<Rightarrow> 's wbg_globals \<Rightarrow> UploadFile \<Rightarrow> (exn + response) \<times> 's wbg_globals" where
  "wbg_remove_background env g file =
     (case wbg_remove_background_body env g file of (r, g') \<Rightarrow> (except_Exception env r, g'))"

definition wbg_process ::
  "'s env \<Rightarrow> 's wbg_globals \<Rightarrow> int list option \<Rightarrow> bytes \<Rightarrow> (exn + response) \<times> 's wbg_globals" where
  "wbg_process env g bgc input_data =
     (case wbg_run_model env g input_data of
        (Inl e, g1) \<Rightarrow> (Inl e, g1)
      | (Inr output_image, g1) \<Rightarrow> (composite_and_encode env bgc output_image, g1))"

definition wbg_remove_background_from_url_body ::
  "'s env \<Rightarrow> 's wbg_globals \<Rightarrow> ImageUrlRequest \<Rightarrow> (exn + response) \<times> 's wbg_globals" where
  "wbg_remove_background_from_url_body env g request =
     (case fetch env (image_url request) g of
        (Inl e, g1) \<Rightarrow> (Inl e, g1)
      | (Inr input_data, g1) \<Rightarrow> wbg_process env g1 (bgcolor request) input_data)"

definition wbg_remove_background_from_url ::
  "'s env \<Rightarrow> 's wbg_globals \<Rightarrow> ImageUrlRequest \<Rightarrow> (exn + response) \<times> 's wbg_globals" where
  "wbg_remove_background_from_url env g request =
     (case wbg_remove_background_from_url_body env g request of
        (r, g') \<Rightarrow> (except_Exception env r, g'))"

definition wbg_remove_background_from_base64_body ::
  "'s env \<Rightarrow> 's wbg_globals \<Rightarrow> ImageBase64Request \<Rightarrow> (exn + response) \<times> 's wbg_globals" where
  "wbg_remove_background_from_base64_body env g request =
     (case b64decode env (image_base64 request) of
        Inl e \<Rightarrow> (Inl e, g)
      | Inr image_bytes \<Rightarrow> wbg_process env g (bgcolor request) image_bytes)"

definition wbg_remove_background_from_base64 ::
  "'s env \<Rightarrow> 's wbg_globals \<Rightarrow> ImageBase64Request \<Rightarrow> (exn + response) \<times> 's wbg_globals" where
  "wbg_remove_background_from_base64 env g request =
     (case wbg_remove_background_from_base64_body env g request of
        (r, g') \<Rightarrow> (except_Exception env r, g'))"

section \<open>Requests in sequence\<close>

text \<open>
  The three POST routes of a server, and a process that serves requests one after
  the other, starting from the globals as the module sets them
  (\<^verbatim>\<open>session = None\<close>, \<^verbatim>\<open>model = None\<close>). The two GET routes only read the
  globals and are left out.
\<close>

datatype request =
  Upload UploadFile
| FromUrl ImageUrlRequest
| FromBase64 ImageBase64Request

fun v2_app :: "'s env \<Rightarrow> 's v2_globals \<Rightarrow> request \<Rightarrow> (exn + response) \<times> 's v2_globals" where
  "v2_app env g (Upload file) = v2_remove_background env g file"
| "v2_app env g (FromUrl r) = v2_remove_background_from_url env g r"
| "v2_app env g (FromBase64 r) = v2_remove_background_from_base64 env g r"

fun wbg_app :: "'s env \<Rightarrow> 's wbg_globals \<Rightarrow> request \<Rightarrow> (exn + response) \<times> 's wbg_globals" where
  "wbg_app env g (Upload file) = wbg_remove_background env g file"
| "wbg_app env g (FromUrl r) = wbg_remove_background_from_url env g r"
| "wbg_app env g (FromBase64 r) = wbg_remove_background_from_base64 env g r"

fun v2_serve :: "'s env \<Rightarrow> 's v2_globals \<Rightarrow> request list \<Rightarrow> 's v2_globals" where
  "v2_serve env g [] = g"
| "v2_serve env g (r # rs) = v2_serve env (snd (v2_app env g r)) rs"

fun wbg_serve :: "'s env \<Rightarrow> 's wbg_globals \<Rightarrow> request list \<Rightarrow> 's wbg_globals" where
  "wbg_serve env g [] = g"
| "wbg_serve env g (r # rs) = wbg_serve env (snd (wbg_app env g r)) rs"

definition v2_start :: "'s v2_globals" where
  "v2_start = \<lparr>trace = [], session = None\<rparr>"

definition wbg_start :: "'s wbg_globals" where
  "wbg_start = \<lparr>trace = [], model = None\<rparr>"

text \<open>How many sessions a trace shows created, and how many runs of the model.\<close>

definition created :: "event list \<Rightarrow> nat" where
  "created tr = length (filter (\<lambda>e. e = ModelInit True) tr)"

definition runs :: "event list \<Rightarrow> nat" where
  "runs tr = length (filter (\<lambda>e. e = ModelRun) tr)"

text \<open>The events that are a call creating the session, whether it returned one or not.\<close>

fun is_init :: "event \<Rightarrow> bool" where
  "is_init (ModelInit b) = True"
| "is_init e = False"

section \<open>Python's base64 decoder\<close>

text \<open>
  \<^verbatim>\<open>base64.b64decode(s)\<close> as the handlers call it, without \<^verbatim>\<open>validate=True\<close>
  (CPython 3.11, \<^verbatim>\<open>binascii.a2b_base64\<close> outside strict mode). It is not in the
  repository; it is written out here to have the real decoder in the concrete
  environment. A text with a non-ASCII character is refused. Otherwise the characters
  are read from left to right: a character outside the alphabet is skipped; a data
  character fills the current group of four; a padding character ends the input once
  the group has at least two data characters and the padding completes it. What is
  left at the end must not be an unfinished group.
\<close>

definition b64_value :: "char \<Rightarrow> nat option" where
  "b64_value c =
     (let n = (of_char c :: nat) in
      if 65 \<le> n \<and> n \<le> 90 then Some (n - 65)
      else if 97 \<le> n \<and> n \<le> 122 then Some (n - 71)
      else if 48 \<le> n \<and> n \<le> 57 then Some (n + 4)
      else if n = 43 then Some 62
      else if n = 47 then Some 63
      else None)"

fun a2b_base64 :: "nat \<Rightarrow> nat \<Rightarrow> nat \<Rightarrow> bytes \<Rightarrow> string \<Rightarrow> exn + bytes" where
  "a2b_base64 quad_pos leftchar pads out [] =
     (if quad_pos = 0 then Inr out
      else if quad_pos = 1 then Inl (Exception ''Invalid base64-encoded string'')
      else Inl (Exception ''Incorrect padding''))"
| "a2b_base64 quad_pos leftchar pads out (c # cs) =
     (if c = CHR ''='' then
        (if quad_pos \<ge> 2 \<and> quad_pos + (pads + 1) \<ge> 4 then Inr out
         else a2b_base64 quad_pos leftchar (if quad_pos \<ge> 2 then pads + 1 else pads) out cs)
      else
        (case b64_value c of
           None \<Rightarrow> a2b_base64 quad_pos leftchar pads out cs
         | Some v \<Rightarrow>
             if quad_pos = 0 then a2b_base64 1 v 0 out cs
             else if quad_pos = 1 then
               a2b_base64 2 (v mod 16) 0 (out @ [of_nat (leftchar * 4 + v div 16)]) cs
             else if quad_pos = 2 then
               a2b_base64 3 (v mod 4) 0 (out @ [of_nat (leftchar * 16 + v div 4)]) cs
             else a2b_base64 0 0 0 (out @ [of_nat (leftchar * 64 + v)]) cs))"

definition py_b64decode :: "string \<Rightarrow> exn + bytes" where
  "py_b64decode s =
     (if list_all (\<lambda>c. (of_char c :: nat) < 128) s then a2b_base64 0 0 0 [] s
      else Inl (Exception ''string argument should contain only ASCII characters''))"


section \<open>A concrete environment\<close>

text \<open>
  A small instance of the libraries, on which the theorems below are evaluated: a
  two-pixel picture, a model that makes its first pixel transparent, a host that
  answers one URL with 200 and another with 404, Python's base64 decoder, and an
  encoder that refuses to write an RGBA image as JPEG.
\<close>

definition demo_image :: image where
  "demo_image = \<lparr>mode = ''RGB'', size_px = (2, 1),
     pixels = [(10, 20, 30, 255), (40, 50, 60, 255)], format = Some ''JPEG''\<rparr>"

definition demo_cutout :: image where
  "demo_cutout = \<lparr>mode = ''RGBA'', size_px = (2, 1),
     pixels = [(10, 20, 30, 0), (40, 50, 60, 255)], format = None\<rparr>"

definition demo_env :: "nat env" where
  "demo_env =
     \<lparr>str = (\<lambda>e. case e of HTTPException c d \<Rightarrow> d | HTTPStatusError c \<Rightarrow> ''status error''
                      | UnicodeEncodeError \<Rightarrow> ''latin-1 codec cannot encode character''
                      | Exception m \<Rightarrow> m),
      http_get = (\<lambda>url t. if url = ''http://ok'' then Inr \<lparr>httpx_status = 200, httpx_content = [1]\<rparr>
                           else if url = ''http://missing'' then Inr \<lparr>httpx_status = 404, httpx_content = []\<rparr>
                           else Inl (Exception ''connect failed'')),
      b64decode = py_b64decode,
      Image_open = (\<lambda>bs. if bs = [2] then Inr (demo_cutout\<lparr>format := Some ''PNG''\<rparr>)
                         else if bs = [9] then Inl (Exception ''cannot identify image file'')
                         else Inr demo_image),
      Image_save = (\<lambda>im f q. if f = ''PNG'' then Inr [2]
                              else if mode im = ''RGB'' then Inr [3]
                              else Inl (Exception ''cannot write mode RGBA as JPEG'')),
      new_session = (\<lambda>name. Inr 7),
      remove_bytes = (\<lambda>bs s. Inr [2]),
      remove_image = (\<lambda>im s. Inr demo_cutout),
      WithoutBG_opensource = Inr 7,
      model_remove_background = (\<lambda>s im. Inr demo_cutout)\<rparr>"

text \<open>An upload of \<open>n\<close> zero bytes, called cat.jpg or by another name.\<close>

definition demo_upload_named :: "py_str \<Rightarrow> nat \<Rightarrow> UploadFile" where
  "demo_upload_named name n = \<lparr>filename = Some name, content_type = Some ''image/jpeg'',
     file_read = replicate n 0\<rparr>"

definition demo_upload :: "nat \<Rightarrow> UploadFile" where
  "demo_upload n = demo_upload_named (py_str_of ''cat.jpg'') n"

definition demo_url_request :: "string \<Rightarrow> int list option \<Rightarrow> ImageUrlRequest" where
  "demo_url_request url bgc = \<lparr>bgcolor = bgc, image_url = url\<rparr>"

definition demo_base64_request :: "string \<Rightarrow> int list option \<Rightarrow> ImageBase64Request" where
  "demo_base64_request b bgc = \<lparr>bgcolor = bgc, image_base64 = b\<rparr>"

section \<open>The exception boundary\<close>

lemma except_Exception_Inl [simp]:
  "except_Exception env (Inl e) = Inl (HTTPException 500 (''Processing failed: '' @ str env e))"
  by (simp add: except_Exception_def)

lemma except_Exception_Inr [simp]: "except_Exception env (Inr r) = Inr r"
  by (simp add: except_Exception_def)

section \<open>File names in the header\<close>

lemma latin1_py_str_of: "list_all (\<lambda>c. c < 256) (py_str_of s)"
  by (induction s) (simp_all add: py_str_of_def)

lemma char_of_py_str_of: "map char_of (py_str_of s) = s"
  by (induction s) (simp_all add: py_str_of_def)

lemma encode_latin1_header:
  "encode_latin1 (py_str_of a @ name @ py_str_of b) =
     (if list_all (\<lambda>c. c < 256) name then Inr (a @ map char_of name @ b)
      else Inl UnicodeEncodeError)"
  by (simp add: encode_latin1_def latin1_py_str_of char_of_py_str_of)

lemma upload_response_latin1:
  assumes "filename file = Some name" and "list_all (\<lambda>c. c < 256) name"
  shows "upload_response output_data file =
           Inr \<lparr>status_code = 200, content = output_data, media_type = ''image/png'',
                headers = [(''Content-Disposition'',
                            ''inline; filename=\"processed_'' @ map char_of name @ ''\"'')]\<rparr>"
  using assms by (simp add: upload_response_def encode_latin1_header)

lemma upload_response_not_latin1:
  assumes "filename file = Some name" and "\<not> list_all (\<lambda>c. c < 256) name"
  shows "upload_response output_data file = Inl UnicodeEncodeError"
  using assms by (simp add: upload_response_def encode_latin1_header)

section \<open>The concrete environment, evaluated\<close>

lemma demo_upload_named_fields [simp]:
  "file_read (demo_upload_named name n) = replicate n 0"
  "filename (demo_upload_named name n) = Some name"
  by (simp_all add: demo_upload_named_def)

lemma demo_upload_response:
  "upload_response output_data (demo_upload n) =
     Inr \<lparr>status_code = 200, content = output_data, media_type = ''image/png'',
          headers = [(''Content-Disposition'', ''inline; filename=\"processed_cat.jpg\"'')]\<rparr>"
  using upload_response_latin1 [of "demo_upload n" "py_str_of ''cat.jpg''" output_data]
  by (simp add: demo_upload_def latin1_py_str_of char_of_py_str_of)

lemma demo_b64decode [simp]:
  "b64decode demo_env = py_b64decode"
  by (simp add: demo_env_def)

lemma py_b64decode_examples [simp]:
  "py_b64decode ''AQ=='' = Inr [1]"
  "py_b64decode ''!AQ=='' = Inr [1]"
  "py_b64decode ''abc'' = Inl (Exception ''Incorrect padding'')"
  by code_simp+

section \<open>The size cap of the upload route\<close>

text \<open>
  C1 (fails on the code). An upload of more than 10 * 1024 * 1024 bytes raises
  \<open>HTTPException 400\<close> inside the \<^verbatim>\<open>try\<close> block of the handler, where
  \<^verbatim>\<open>except Exception\<close> catches it and raises \<open>HTTPException 500\<close> in its place: on
  each of the three servers the client gets status 500, not 400.
\<close>

theorem oversized_upload_is_500:
  assumes "length (file_read file) > 10 * 1024 * 1024"
  shows "fst (v1_remove_background env g1 file) =
           Inl (HTTPException 500
             (''Processing failed: '' @ str env (HTTPException 400 ''File too large (max 10MB)'')))
       \<and> fst (v2_remove_background env g2 file) =
           Inl (HTTPException 500
             (''Processing failed: '' @ str env (HTTPException 400 ''File too large (max 10MB)'')))
       \<and> fst (wbg_remove_background env g3 file) =
           Inl (HTTPException 500
             (''Processing failed: '' @ str env (HTTPException 400 ''File too large (max 10MB)'')))
       \<and> http_status (fst (v1_remove_background env g1 file)) = 500
       \<and> http_status (fst (v2_remove_background env g2 file)) = 500
       \<and> http_status (fst (wbg_remove_background env g3 file)) = 500"
  using assms
  by (simp add: v1_remove_background_def v1_remove_background_body_def
      v2_remove_background_def v2_remove_background_body_def
      wbg_remove_background_def wbg_remove_background_body_def)

theorem oversized_upload_is_500_witness:
  "length (file_read (demo_upload 10485761)) > 10 * 1024 * 1024
   \<and> http_status (fst (v2_remove_background demo_env v2_start (demo_upload 10485761))) = 500
   \<and> http_detail (fst (v2_remove_background demo_env v2_start (demo_upload 10485761)))
        = Some ''Processing failed: File too large (max 10MB)''
   \<and> http_status (fst (wbg_remove_background demo_env wbg_start (demo_upload 10485761))) = 500"
  using oversized_upload_is_500 [of "demo_upload 10485761" demo_env _ v2_start wbg_start]
  by (simp add: demo_upload_def demo_env_def)

section \<open>More on the size cap\<close>

lemmas upload_defs =
  v1_remove_background_def v1_remove_background_body_def
  v2_remove_background_def v2_remove_background_body_def
  wbg_remove_background_def wbg_remove_background_body_def

text \<open>
  C10. An upload over the size cap is refused before the session (or model) is looked
  at: the handler leaves the module globals as they were, so no session is created and
  no call to the model library is recorded, on each server.
\<close>

theorem oversized_upload_leaves_globals:
  assumes "length (file_read file) > 10 * 1024 * 1024"
  shows "snd (v2_remove_background env g2 file) = g2
       \<and> snd (wbg_remove_background env g3 file) = g3
       \<and> snd (v1_remove_background env g1 file) = g1"
  using assms by (simp add: upload_defs)

theorem oversized_upload_leaves_globals_witness:
  "length (file_read (demo_upload 10485761)) > 10 * 1024 * 1024
   \<and> session (snd (v2_remove_background demo_env v2_start (demo_upload 10485761))) = None
   \<and> trace (snd (v2_remove_background demo_env v2_start (demo_upload 10485761))) = []
   \<and> model (snd (wbg_remove_background demo_env wbg_start (demo_upload 10485761))) = None
   \<and> trace (snd (wbg_remove_background demo_env wbg_start (demo_upload 10485761))) = []"
  using oversized_upload_leaves_globals [of "demo_upload 10485761" demo_env v2_start wbg_start]
  by (simp add: demo_upload_def v2_start_def wbg_start_def)

text \<open>
  C8. An upload of exactly 10 * 1024 * 1024 bytes passes the size check (which tests
  \<open>>\<close>): the handler goes on with the rest of its body and runs the model. On the first
  server that is the next step; on the second the session is fetched or created first;
  on the withoutBG server the bytes are opened as an image and the model is fetched or
  created first. The outcome is the one of that remaining body, and the run of the model
  is recorded.
\<close>

theorem boundary_upload_runs_model:
  assumes "length (file_read file) = 10 * 1024 * 1024"
  shows "v1_remove_background env g1 file =
           (except_Exception env
              (case remove_bytes env (file_read file) (v1_session g1) of
                 Inl e \<Rightarrow> Inl e
               | Inr output_data \<Rightarrow> upload_response output_data file),
            g1\<lparr>trace := trace g1 @ [ModelRun]\<rparr>)
       \<and> (\<forall>s g'. v2_init_session env g2 = (Inr s, g') \<longrightarrow>
            v2_remove_background env g2 file =
              (except_Exception env
                 (case remove_bytes env (file_read file) s of
                    Inl e \<Rightarrow> Inl e
                  | Inr output_data \<Rightarrow> upload_response output_data file),
               g'\<lparr>trace := trace g' @ [ModelRun]\<rparr>))
       \<and> (\<forall>im m g'. Image_open env (file_read file) = Inr im \<and> get_model env g3 = (Inr m, g') \<longrightarrow>
            wbg_remove_background env g3 file =
              (except_Exception env
                 (case model_remove_background env m im of
                    Inl e \<Rightarrow> Inl e
                  | Inr output_image \<Rightarrow>
                      (case Image_save env output_image ''PNG'' None of
                         Inl e \<Rightarrow> Inl e
                       | Inr output_bytes \<Rightarrow> upload_response output_bytes file)),
               g'\<lparr>trace := trace g' @ [ModelRun]\<rparr>))"
  using assms
  by (auto simp add: upload_defs wbg_run_model_def Let_def split: sum.splits)

theorem boundary_upload_runs_model_witness:
  "length (file_read (demo_upload 10485760)) = 10 * 1024 * 1024
   \<and> v2_init_session demo_env v2_start = (Inr 7, \<lparr>trace = [ModelInit True], session = Some 7\<rparr>)
   \<and> trace (snd (v2_remove_background demo_env v2_start (demo_upload 10485760))) = [ModelInit True, ModelRun]
   \<and> http_status (fst (v2_remove_background demo_env v2_start (demo_upload 10485760))) = 200
   \<and> trace (snd (v1_remove_background demo_env \<lparr>trace = [], v1_session = 7\<rparr> (demo_upload 10485760))) = [ModelRun]
   \<and> Image_open demo_env (file_read (demo_upload 10485760)) = Inr demo_image
   \<and> get_model demo_env wbg_start = (Inr 7, \<lparr>trace = [ModelInit True], model = Some 7\<rparr>)
   \<and> trace (snd (wbg_remove_background demo_env wbg_start (demo_upload 10485760))) = [ModelInit True, ModelRun]"
proof -
  have len: "length (file_read (demo_upload 10485760)) = 10 * 1024 * 1024"
    by (simp add: demo_upload_def)
  have i2: "v2_init_session demo_env v2_start = (Inr 7, \<lparr>trace = [ModelInit True], session = Some 7\<rparr>)"
    by (simp add: v2_init_session_def v2_start_def demo_env_def)
  have ne: "replicate 10485760 (0::8 word) \<noteq> [b]" for b
  proof
    assume "replicate 10485760 (0::8 word) = [b]"
    then have "length (replicate 10485760 (0::8 word)) = length [b]" by (rule arg_cong)
    then show False by simp
  qed
  have op: "Image_open demo_env (file_read (demo_upload 10485760)) = Inr demo_image"
    by (simp add: demo_env_def demo_upload_def ne)
  have i3: "get_model demo_env wbg_start = (Inr 7, \<lparr>trace = [ModelInit True], model = Some 7\<rparr>)"
    by (simp add: get_model_def wbg_start_def demo_env_def)
  note b = boundary_upload_runs_model [OF len, of demo_env "\<lparr>trace = [], v1_session = 7\<rparr>" v2_start wbg_start]
  from b have b1: "v1_remove_background demo_env \<lparr>trace = [], v1_session = 7\<rparr> (demo_upload 10485760) =
           (except_Exception demo_env
              (case remove_bytes demo_env (file_read (demo_upload 10485760)) (v1_session \<lparr>trace = [], v1_session = 7\<rparr>) of
                 Inl e \<Rightarrow> Inl e
               | Inr output_data \<Rightarrow> upload_response output_data (demo_upload 10485760)),
            \<lparr>trace = [], v1_session = 7\<rparr>\<lparr>trace := trace \<lparr>trace = [], v1_session = 7::nat\<rparr> @ [ModelRun]\<rparr>)"
    by blast
  from b i2 have b2: "v2_remove_background demo_env v2_start (demo_upload 10485760) =
              (except_Exception demo_env
                 (case remove_bytes demo_env (file_read (demo_upload 10485760)) 7 of
                    Inl e \<Rightarrow> Inl e
                  | Inr output_data \<Rightarrow> upload_response output_data (demo_upload 10485760)),
               \<lparr>trace = [ModelInit True], session = Some 7\<rparr>\<lparr>trace := trace \<lparr>trace = [ModelInit True], session = Some (7::nat)\<rparr> @ [ModelRun]\<rparr>)"
    by blast
  from b op i3 have b3: "trace (snd (wbg_remove_background demo_env wbg_start (demo_upload 10485760))) = [ModelInit True, ModelRun]"
    by simp
  have r: "remove_bytes demo_env (file_read (demo_upload 10485760)) 7 = Inr [2]"
    by (simp add: demo_env_def)
  show ?thesis
    using len i2 op i3 b3 by (simp add: b1 b2 r demo_upload_response)
qed

section \<open>Failures of the base64 and URL routes\<close>



text \<open>
  C5. When the GET of the URL raises, or returns a status outside 200-299, the URL
  route answers with status 500 and the detail "Processing failed: " followed by the
  text of the exception. The globals show one GET of that URL, with timeout 30, and
  nothing else: no second attempt.
\<close>

theorem failed_fetch_is_500:
  assumes "http_get env (image_url request) 30 = Inl e
         \<or> (\<exists>r. http_get env (image_url request) 30 = Inr r
                \<and> \<not> (200 \<le> httpx_status r \<and> httpx_status r < 300)
                \<and> e = HTTPStatusError (httpx_status r))"
  shows "v2_remove_background_from_url env g2 request =
           (Inl (HTTPException 500 (''Processing failed: '' @ str env e)),
            g2\<lparr>trace := trace g2 @ [HttpGet (image_url request) 30]\<rparr>)
       \<and> wbg_remove_background_from_url env g3 request =
           (Inl (HTTPException 500 (''Processing failed: '' @ str env e)),
            g3\<lparr>trace := trace g3 @ [HttpGet (image_url request) 30]\<rparr>)
       \<and> http_status (fst (v2_remove_background_from_url env g2 request)) = 500
       \<and> http_status (fst (wbg_remove_background_from_url env g3 request)) = 500"
  using assms
  by (auto simp add: v2_remove_background_from_url_def v2_remove_background_from_url_body_def
      wbg_remove_background_from_url_def wbg_remove_background_from_url_body_def
      fetch_def raise_for_status_def Let_def)

theorem failed_fetch_is_500_witness:
  "http_get demo_env (image_url (demo_url_request ''http://missing'' None)) 30
      = Inr \<lparr>httpx_status = 404, httpx_content = []\<rparr>
   \<and> v2_remove_background_from_url demo_env v2_start (demo_url_request ''http://missing'' None) =
       (Inl (HTTPException 500 ''Processing failed: status error''),
        \<lparr>trace = [HttpGet ''http://missing'' 30], session = None\<rparr>)
   \<and> wbg_remove_background_from_url demo_env wbg_start (demo_url_request ''http://missing'' None) =
       (Inl (HTTPException 500 ''Processing failed: status error''),
        \<lparr>trace = [HttpGet ''http://missing'' 30], model = None\<rparr>)"
proof -
  have d: "http_get demo_env (image_url (demo_url_request ''http://missing'' None)) 30
      = Inr \<lparr>httpx_status = 404, httpx_content = []\<rparr>"
    by (simp add: demo_env_def demo_url_request_def)
  have s: "str demo_env (HTTPStatusError 404) = ''status error''"
    by (simp add: demo_env_def)
  have u: "image_url (demo_url_request ''http://missing'' None) = ''http://missing''"
    by (simp add: demo_url_request_def)
  show ?thesis
    using d failed_fetch_is_500 [of demo_env "demo_url_request ''http://missing'' None"
        "HTTPStatusError 404" v2_start wbg_start]
    by (simp add: s u v2_start_def wbg_start_def)
qed

section \<open>From the model's output to the response\<close>

text \<open>
  When the input was obtained and opened, the session is there or can be created, and the
  model returns \<open>out\<close>, the URL and base64 handlers answer with what the compositing
  and encoding blocks make of \<open>out\<close>.
\<close>

lemma fst_fetch_trace:
  "fst (fetch env url g) = Inr data \<Longrightarrow>
   fetch env url g = (Inr data, g\<lparr>trace := trace g @ [HttpGet url 30]\<rparr>)"
  by (auto simp add: fetch_def Let_def split: sum.splits)

lemma v2_init_session_trace [simp]:
  "fst (v2_init_session env (g\<lparr>trace := t\<rparr>)) = fst (v2_init_session env g)"
  by (simp add: v2_init_session_def split: option.splits sum.splits)

lemma get_model_trace [simp]:
  "fst (get_model env (g\<lparr>trace := t\<rparr>)) = fst (get_model env g)"
  by (simp add: get_model_def split: option.splits sum.splits)

lemma v2_process_reach:
  assumes "Image_open env data = Inr im" and "fst (v2_init_session env g) = Inr s"
    and "remove_image env im s = Inr out"
  shows "fst (v2_process env g bgc data) = composite_and_encode env bgc out"
  using assms by (cases "v2_init_session env g") (simp add: v2_process_def Let_def)

lemma wbg_process_reach:
  assumes "Image_open env data = Inr im" and "fst (get_model env g) = Inr m"
    and "model_remove_background env m im = Inr out"
  shows "fst (wbg_process env g bgc data) = composite_and_encode env bgc out"
  using assms
  by (cases "get_model env g") (simp add: wbg_process_def wbg_run_model_def Let_def)

lemma v2_url_reach:
  assumes "fst (fetch env (image_url r) g) = Inr data" and "Image_open env data = Inr im"
    and "fst (v2_init_session env g) = Inr s" and "remove_image env im s = Inr out"
  shows "fst (v2_remove_background_from_url env g r) =
           except_Exception env (composite_and_encode env (bgcolor r) out)"
proof -
  have "fst (v2_process env (g\<lparr>trace := trace g @ [HttpGet (image_url r) 30]\<rparr>) (bgcolor r) data)
          = composite_and_encode env (bgcolor r) out"
    using assms by (intro v2_process_reach) simp_all
  then show ?thesis
    using fst_fetch_trace [OF assms(1)]
    by (simp add: v2_remove_background_from_url_def v2_remove_background_from_url_body_def
        case_prod_beta)
qed

lemma v2_base64_reach:
  assumes "b64decode env (image_base64 r) = Inr data" and "Image_open env data = Inr im"
    and "fst (v2_init_session env g) = Inr s" and "remove_image env im s = Inr out"
  shows "fst (v2_remove_background_from_base64 env g r) =
           except_Exception env (composite_and_encode env (bgcolor r) out)"
  using assms v2_process_reach [of env data im g s out "bgcolor r"]
  by (simp add: v2_remove_background_from_base64_def v2_remove_background_from_base64_body_def
      case_prod_beta)

lemma wbg_url_reach:
  assumes "fst (fetch env (image_url r) g) = Inr data" and "Image_open env data = Inr im"
    and "fst (get_model env g) = Inr m" and "model_remove_background env m im = Inr out"
  shows "fst (wbg_remove_background_from_url env g r) =
           except_Exception env (composite_and_encode env (bgcolor r) out)"
proof -
  have "fst (wbg_process env (g\<lparr>trace := trace g @ [HttpGet (image_url r) 30]\<rparr>) (bgcolor r) data)
          = composite_and_encode env (bgcolor r) out"
    using assms by (intro wbg_process_reach) simp_all
  then show ?thesis
    using fst_fetch_trace [OF assms(1)]
    by (simp add: wbg_remove_background_from_url_def wbg_remove_background_from_url_body_def
        case_prod_beta)
qed

lemma wbg_base64_reach:
  assumes "b64decode env (image_base64 r) = Inr data" and "Image_open env data = Inr im"
    and "fst (get_model env g) = Inr m" and "model_remove_background env m im = Inr out"
  shows "fst (wbg_remove_background_from_base64 env g r) =
           except_Exception env (composite_and_encode env (bgcolor r) out)"
  using assms wbg_process_reach [of env data im g m out "bgcolor r"]
  by (simp add: wbg_remove_background_from_base64_def wbg_remove_background_from_base64_body_def
      case_prod_beta)

lemma short_bgcolor_encode:
  assumes "c \<noteq> []" and "length c < 3"
  shows "composite_and_encode env (Some c) out =
           (case Image_save env out ''JPEG'' (Some 95) of
              Inl e \<Rightarrow> Inl e
            | Inr output_bytes \<Rightarrow>
                Inr \<lparr>status_code = 200, content = output_bytes, media_type = ''image/jpeg'',
                     headers = []\<rparr>)"
  using assms
  by (simp add: composite_and_encode_def composite_bgcolor_def encode_response_def)

text \<open>
  C9. A \<open>bgcolor\<close> list with one or two elements: the compositing block is skipped (its
  result is the model's output \<open>out\<close>, unchanged), and the image given to the encoder
  is \<open>out\<close>, with format JPEG, quality 95 and media type image/jpeg. This holds for the
  URL and base64 handlers of both servers. (What the encoder does with an image that
  still has an alpha channel is its own business: the outcome is the encoder's.)
\<close>

theorem short_bgcolor_skips_compositing:
  assumes "c \<noteq> []" and "length c < 3"
  shows "composite_bgcolor (Some c) out = Inr out
       \<and> (\<forall>g r data im s.
            bgcolor r = Some c \<and> fst (fetch env (image_url r) g) = Inr data
            \<and> Image_open env data = Inr im \<and> fst (v2_init_session env g) = Inr s
            \<and> remove_image env im s = Inr out \<longrightarrow>
            fst (v2_remove_background_from_url env g r) =
              except_Exception env
                (case Image_save env out ''JPEG'' (Some 95) of
                   Inl e \<Rightarrow> Inl e
                 | Inr output_bytes \<Rightarrow>
                     Inr \<lparr>status_code = 200, content = output_bytes,
                          media_type = ''image/jpeg'', headers = []\<rparr>))
       \<and> (\<forall>g r data im s.
            bgcolor r = Some c \<and> b64decode env (image_base64 r) = Inr data
            \<and> Image_open env data = Inr im \<and> fst (v2_init_session env g) = Inr s
            \<and> remove_image env im s = Inr out \<longrightarrow>
            fst (v2_remove_background_from_base64 env g r) =
              except_Exception env
                (case Image_save env out ''JPEG'' (Some 95) of
                   Inl e \<Rightarrow> Inl e
                 | Inr output_bytes \<Rightarrow>
                     Inr \<lparr>status_code = 200, content = output_bytes,
                          media_type = ''image/jpeg'', headers = []\<rparr>))
       \<and> (\<forall>g r data im m.
            bgcolor r = Some c \<and> fst (fetch env (image_url r) g) = Inr data
            \<and> Image_open env data = Inr im \<and> fst (get_model env g) = Inr m
            \<and> model_remove_background env m im = Inr out \<longrightarrow>
            fst (wbg_remove_background_from_url env g r) =
              except_Exception env
                (case Image_save env out ''JPEG'' (Some 95) of
                   Inl e \<Rightarrow> Inl e
                 | Inr output_bytes \<Rightarrow>
                     Inr \<lparr>status_code = 200, content = output_bytes,
                          media_type = ''image/jpeg'', headers = []\<rparr>))
       \<and> (\<forall>g r data im m.
            bgcolor r = Some c \<and> b64decode env (image_base64 r) = Inr data
            \<and> Image_open env data = Inr im \<and> fst (get_model env g) = Inr m
            \<and> model_remove_background env m im = Inr out \<longrightarrow>
            fst (wbg_remove_background_from_base64 env g r) =
              except_Exception env
                (case Image_save env out ''JPEG'' (Some 95) of
                   Inl e \<Rightarrow> Inl e
                 | Inr output_bytes \<Rightarrow>
                     Inr \<lparr>status_code = 200, content = output_bytes,
                          media_type = ''image/jpeg'', headers = []\<rparr>))"
proof (intro conjI allI impI)
  show "composite_bgcolor (Some c) out = Inr out"
    using assms by (simp add: composite_bgcolor_def)
next
  fix g :: "'a v2_globals" and r :: ImageUrlRequest and data im s
  assume h: "bgcolor r = Some c \<and> fst (fetch env (image_url r) g) = Inr data
            \<and> Image_open env data = Inr im \<and> fst (v2_init_session env g) = Inr s
            \<and> remove_image env im s = Inr out"
  then have "fst (v2_remove_background_from_url env g r) =
           except_Exception env (composite_and_encode env (bgcolor r) out)"
    by (intro v2_url_reach [of env r g data im s out]) simp_all
  with h show "fst (v2_remove_background_from_url env g r) =
              except_Exception env
                (case Image_save env out ''JPEG'' (Some 95) of
                   Inl e \<Rightarrow> Inl e
                 | Inr output_bytes \<Rightarrow>
                     Inr \<lparr>status_code = 200, content = output_bytes,
                          media_type = ''image/jpeg'', headers = []\<rparr>)"
    by (simp add: short_bgcolor_encode [OF assms])
next
  fix g :: "'a v2_globals" and r :: ImageBase64Request and data im s
  assume h: "bgcolor r = Some c \<and> b64decode env (image_base64 r) = Inr data
            \<and> Image_open env data = Inr im \<and> fst (v2_init_session env g) = Inr s
            \<and> remove_image env im s = Inr out"
  then have "fst (v2_remove_background_from_base64 env g r) =
           except_Exception env (composite_and_encode env (bgcolor r) out)"
    by (intro v2_base64_reach [of env r data im g s out]) simp_all
  with h show "fst (v2_remove_background_from_base64 env g r) =
              except_Exception env
                (case Image_save env out ''JPEG'' (Some 95) of
                   Inl e \<Rightarrow> Inl e
                 | Inr output_bytes \<Rightarrow>
                     Inr \<lparr>status_code = 200, content = output_bytes,
                          media_type = ''image/jpeg'', headers = []\<rparr>)"
    by (simp add: short_bgcolor_encode [OF assms])
next
  fix g :: "'a wbg_globals" and r :: ImageUrlRequest and data im m
  assume h: "bgcolor r = Some c \<and> fst (fetch env (image_url r) g) = Inr data
            \<and> Image_open env data = Inr im \<and> fst (get_model env g) = Inr m
            \<and> model_remove_background env m im = Inr out"
  then have "fst (wbg_remove_background_from_url env g r) =
           except_Exception env (composite_and_encode env (bgcolor r) out)"
    by (intro wbg_url_reach [of env r g data im m out]) simp_all
  with h show "fst (wbg_remove_background_from_url env g r) =
              except_Exception env
                (case Image_save env out ''JPEG'' (Some 95) of
                   Inl e \<Rightarrow> Inl e
                 | Inr output_bytes \<Rightarrow>
                     Inr \<lparr>status_code = 200, content = output_bytes,
                          media_type = ''image/jpeg'', headers = []\<rparr>)"
    by (simp add: short_bgcolor_encode [OF assms])
next
  fix g :: "'a wbg_globals" and r :: ImageBase64Request and data im m
  assume h: "bgcolor r = Some c \<and> b64decode env (image_base64 r) = Inr data
            \<and> Image_open env data = Inr im \<and> fst (get_model env g) = Inr m
            \<and> model_remove_background env m im = Inr out"
  then have "fst (wbg_remove_background_from_base64 env g r) =
           except_Exception env (composite_and_encode env (bgcolor r) out)"
    by (intro wbg_base64_reach [of env r data im g m out]) simp_all
  with h show "fst (wbg_remove_background_from_base64 env g r) =
              except_Exception env
                (case Image_save env out ''JPEG'' (Some 95) of
                   Inl e \<Rightarrow> Inl e
                 | Inr output_bytes \<Rightarrow>
                     Inr \<lparr>status_code = 200, content = output_bytes,
                          media_type = ''image/jpeg'', headers = []\<rparr>)"
    by (simp add: short_bgcolor_encode [OF assms])
qed

lemma demo_reach:
  "fst (fetch demo_env ''http://ok'' v2_start) = Inr [1]"
  "fst (fetch demo_env ''http://ok'' wbg_start) = Inr [1]"
  "b64decode demo_env ''AQ=='' = Inr [1]"
  "Image_open demo_env [1] = Inr demo_image"
  "fst (v2_init_session demo_env v2_start) = Inr 7"
  "fst (get_model demo_env wbg_start) = Inr 7"
  "remove_image demo_env demo_image 7 = Inr demo_cutout"
  "model_remove_background demo_env 7 demo_image = Inr demo_cutout"
  by (simp_all add: fetch_def raise_for_status_def demo_env_def v2_init_session_def
      get_model_def v2_start_def wbg_start_def)

lemma demo_request_fields [simp]:
  "bgcolor (demo_url_request url bgc) = bgc"
  "image_url (demo_url_request url bgc) = url"
  "bgcolor (demo_base64_request b bgc) = bgc"
  "image_base64 (demo_base64_request b bgc) = b"
  by (simp_all add: demo_url_request_def demo_base64_request_def)

lemma demo_save_cutout_jpeg:
  "Image_save demo_env demo_cutout ''JPEG'' (Some 95) = Inl (Exception ''cannot write mode RGBA as JPEG'')"
  "str demo_env (Exception ''cannot write mode RGBA as JPEG'') = ''cannot write mode RGBA as JPEG''"
  by (simp_all add: demo_env_def demo_cutout_def)

theorem short_bgcolor_skips_compositing_witness:
  "[255::int] \<noteq> [] \<and> length [255::int] < 3
   \<and> composite_bgcolor (Some [255]) demo_cutout = Inr demo_cutout
   \<and> fst (v2_remove_background_from_url demo_env v2_start (demo_url_request ''http://ok'' (Some [255])))
       = Inl (HTTPException 500 ''Processing failed: cannot write mode RGBA as JPEG'')
   \<and> fst (v2_remove_background_from_base64 demo_env v2_start (demo_base64_request ''AQ=='' (Some [255])))
       = Inl (HTTPException 500 ''Processing failed: cannot write mode RGBA as JPEG'')
   \<and> fst (wbg_remove_background_from_url demo_env wbg_start (demo_url_request ''http://ok'' (Some [255])))
       = Inl (HTTPException 500 ''Processing failed: cannot write mode RGBA as JPEG'')
   \<and> fst (wbg_remove_background_from_base64 demo_env wbg_start (demo_base64_request ''AQ=='' (Some [255])))
       = Inl (HTTPException 500 ''Processing failed: cannot write mode RGBA as JPEG'')"
proof -
  have p: "[255::int] \<noteq> []" "length [255::int] < 3" by simp_all
  note t = short_bgcolor_skips_compositing [OF p, of demo_cutout demo_env]
  have u: "bgcolor (demo_url_request ''http://ok'' (Some [255])) = Some [255]"
      "fst (fetch demo_env (image_url (demo_url_request ''http://ok'' (Some [255]))) v2_start) = Inr [1]"
      "fst (fetch demo_env (image_url (demo_url_request ''http://ok'' (Some [255]))) wbg_start) = Inr [1]"
    and b: "bgcolor (demo_base64_request ''AQ=='' (Some [255])) = Some [255]"
      "b64decode demo_env (image_base64 (demo_base64_request ''AQ=='' (Some [255]))) = Inr [1]"
    by (simp_all add: demo_reach)
  have "composite_bgcolor (Some [255]) demo_cutout = Inr demo_cutout"
    using t by blast
  moreover have "fst (v2_remove_background_from_url demo_env v2_start (demo_url_request ''http://ok'' (Some [255])))
       = except_Exception demo_env
           (case Image_save demo_env demo_cutout ''JPEG'' (Some 95) of
              Inl e \<Rightarrow> Inl e
            | Inr output_bytes \<Rightarrow>
                Inr \<lparr>status_code = 200, content = output_bytes,
                     media_type = ''image/jpeg'', headers = []\<rparr>)"
    using t u demo_reach(4,5,7) by blast
  moreover have "fst (v2_remove_background_from_base64 demo_env v2_start (demo_base64_request ''AQ=='' (Some [255])))
       = except_Exception demo_env
           (case Image_save demo_env demo_cutout ''JPEG'' (Some 95) of
              Inl e \<Rightarrow> Inl e
            | Inr output_bytes \<Rightarrow>
                Inr \<lparr>status_code = 200, content = output_bytes,
                     media_type = ''image/jpeg'', headers = []\<rparr>)"
    using t b demo_reach(4,5,7) by blast
  moreover have "fst (wbg_remove_background_from_url demo_env wbg_start (demo_url_request ''http://ok'' (Some [255])))
       = except_Exception demo_env
           (case Image_save demo_env demo_cutout ''JPEG'' (Some 95) of
              Inl e \<Rightarrow> Inl e
            | Inr output_bytes \<Rightarrow>
                Inr \<lparr>status_code = 200, content = output_bytes,
                     media_type = ''image/jpeg'', headers = []\<rparr>)"
    using t u demo_reach(4,6,8) by blast
  moreover have "fst (wbg_remove_background_from_base64 demo_env wbg_start (demo_base64_request ''AQ=='' (Some [255])))
       = except_Exception demo_env
           (case Image_save demo_env demo_cutout ''JPEG'' (Some 95) of
              Inl e \<Rightarrow> Inl e
            | Inr output_bytes \<Rightarrow>
                Inr \<lparr>status_code = 200, content = output_bytes,
                     media_type = ''image/jpeg'', headers = []\<rparr>)"
    using t b demo_reach(4,6,8) by blast
  ultimately show ?thesis
    by (simp add: demo_save_cutout_jpeg)
qed

section \<open>The output format\<close>

lemma encoded_format:
  assumes "composite_and_encode env bgc out = Inr resp"
  shows "(\<exists>im. Image_save env im (if bgc \<noteq> None \<and> bgc \<noteq> Some [] then ''JPEG'' else ''PNG'') (Some 95)
               = Inr (content resp))
       \<and> media_type resp = (if bgc \<noteq> None \<and> bgc \<noteq> Some [] then ''image/jpeg'' else ''image/png'')
       \<and> status_code resp = 200"
proof (cases bgc)
  case None
  with assms show ?thesis
    by (auto simp add: composite_and_encode_def encode_response_def split: sum.splits)
next
  case (Some c)
  with assms show ?thesis
    by (cases "c = []")
       (auto simp add: composite_and_encode_def encode_response_def split: sum.splits)
qed

lemma v2_process_response:
  "fst (v2_process env g bgc data) = Inr resp \<Longrightarrow> \<exists>out. composite_and_encode env bgc out = Inr resp"
  by (auto simp add: v2_process_def Let_def split: sum.splits prod.splits)

lemma wbg_process_response:
  "fst (wbg_process env g bgc data) = Inr resp \<Longrightarrow> \<exists>out. composite_and_encode env bgc out = Inr resp"
  by (auto simp add: wbg_process_def Let_def split: sum.splits prod.splits)

lemma except_Exception_response:
  "except_Exception env r = Inr resp \<Longrightarrow> r = Inr resp"
  by (cases r) simp_all

lemma v2_url_response:
  assumes "fst (v2_remove_background_from_url env g r) = Inr resp"
  shows "\<exists>out. composite_and_encode env (bgcolor r) out = Inr resp"
proof -
  obtain x g1 where f: "fetch env (image_url r) g = (x, g1)" by (cases "fetch env (image_url r) g")
  show ?thesis
  proof (cases x)
    case (Inl e)
    with f assms show ?thesis
      by (simp add: v2_remove_background_from_url_def v2_remove_background_from_url_body_def)
  next
    case (Inr data)
    with f assms have "except_Exception env (fst (v2_process env g1 (bgcolor r) data)) = Inr resp"
      by (simp add: v2_remove_background_from_url_def v2_remove_background_from_url_body_def
          case_prod_beta)
    then show ?thesis
      by (intro v2_process_response [of env g1 _ data]) (rule except_Exception_response)
  qed
qed

lemma wbg_url_response:
  assumes "fst (wbg_remove_background_from_url env g r) = Inr resp"
  shows "\<exists>out. composite_and_encode env (bgcolor r) out = Inr resp"
proof -
  obtain x g1 where f: "fetch env (image_url r) g = (x, g1)" by (cases "fetch env (image_url r) g")
  show ?thesis
  proof (cases x)
    case (Inl e)
    with f assms show ?thesis
      by (simp add: wbg_remove_background_from_url_def wbg_remove_background_from_url_body_def)
  next
    case (Inr data)
    with f assms have "except_Exception env (fst (wbg_process env g1 (bgcolor r) data)) = Inr resp"
      by (simp add: wbg_remove_background_from_url_def wbg_remove_background_from_url_body_def
          case_prod_beta)
    then show ?thesis
      by (intro wbg_process_response [of env g1 _ data]) (rule except_Exception_response)
  qed
qed

lemma v2_base64_response:
  assumes "fst (v2_remove_background_from_base64 env g r) = Inr resp"
  shows "\<exists>out. composite_and_encode env (bgcolor r) out = Inr resp"
proof (cases "b64decode env (image_base64 r)")
  case (Inl e)
  with assms show ?thesis
    by (simp add: v2_remove_background_from_base64_def v2_remove_background_from_base64_body_def)
next
  case (Inr data)
  with assms have "except_Exception env (fst (v2_process env g (bgcolor r) data)) = Inr resp"
    by (simp add: v2_remove_background_from_base64_def v2_remove_background_from_base64_body_def
        case_prod_beta)
  then show ?thesis
    by (intro v2_process_response [of env g _ data]) (rule except_Exception_response)
qed

lemma wbg_base64_response:
  assumes "fst (wbg_remove_background_from_base64 env g r) = Inr resp"
  shows "\<exists>out. composite_and_encode env (bgcolor r) out = Inr resp"
proof (cases "b64decode env (image_base64 r)")
  case (Inl e)
  with assms show ?thesis
    by (simp add: wbg_remove_background_from_base64_def wbg_remove_background_from_base64_body_def)
next
  case (Inr data)
  with assms have "except_Exception env (fst (wbg_process env g (bgcolor r) data)) = Inr resp"
    by (simp add: wbg_remove_background_from_base64_def wbg_remove_background_from_base64_body_def
        case_prod_beta)
  then show ?thesis
    by (intro wbg_process_response [of env g _ data]) (rule except_Exception_response)
qed

text \<open>
  C3, amended. Every response of the URL and base64 handlers is status 200 with a body
  that the encoder returned at quality 95, and the format is JPEG with media type
  image/jpeg when \<open>bgcolor\<close> is given and is not the empty list, PNG with media type
  image/png otherwise (when \<open>bgcolor\<close> is absent or is the empty list).
\<close>

theorem output_format_by_bgcolor:
  "(\<forall>resp. fst (v2_remove_background_from_url env g2 ru) = Inr resp \<longrightarrow>
      (\<exists>im. Image_save env im
              (if bgcolor ru \<noteq> None \<and> bgcolor ru \<noteq> Some [] then ''JPEG'' else ''PNG'') (Some 95)
            = Inr (content resp))
      \<and> media_type resp =
          (if bgcolor ru \<noteq> None \<and> bgcolor ru \<noteq> Some [] then ''image/jpeg'' else ''image/png'')
      \<and> status_code resp = 200)
 \<and> (\<forall>resp. fst (v2_remove_background_from_base64 env g2 rb) = Inr resp \<longrightarrow>
      (\<exists>im. Image_save env im
              (if bgcolor rb \<noteq> None \<and> bgcolor rb \<noteq> Some [] then ''JPEG'' else ''PNG'') (Some 95)
            = Inr (content resp))
      \<and> media_type resp =
          (if bgcolor rb \<noteq> None \<and> bgcolor rb \<noteq> Some [] then ''image/jpeg'' else ''image/png'')
      \<and> status_code resp = 200)
 \<and> (\<forall>resp. fst (wbg_remove_background_from_url env g3 ru) = Inr resp \<longrightarrow>
      (\<exists>im. Image_save env im
              (if bgcolor ru \<noteq> None \<and> bgcolor ru \<noteq> Some [] then ''JPEG'' else ''PNG'') (Some 95)
            = Inr (content resp))
      \<and> media_type resp =
          (if bgcolor ru \<noteq> None \<and> bgcolor ru \<noteq> Some [] then ''image/jpeg'' else ''image/png'')
      \<and> status_code resp = 200)
 \<and> (\<forall>resp. fst (wbg_remove_background_from_base64 env g3 rb) = Inr resp \<longrightarrow>
      (\<exists>im. Image_save env im
              (if bgcolor rb \<noteq> None \<and> bgcolor rb \<noteq> Some [] then ''JPEG'' else ''PNG'') (Some 95)
            = Inr (content resp))
      \<and> media_type resp =
          (if bgcolor rb \<noteq> None \<and> bgcolor rb \<noteq> Some [] then ''image/jpeg'' else ''image/png'')
      \<and> status_code resp = 200)"
proof (intro conjI allI impI)
  fix resp
  assume "fst (v2_remove_background_from_url env g2 ru) = Inr resp"
  then obtain out where "composite_and_encode env (bgcolor ru) out = Inr resp"
    using v2_url_response by blast
  from encoded_format [OF this] show
    "\<exists>im. Image_save env im
              (if bgcolor ru \<noteq> None \<and> bgcolor ru \<noteq> Some [] then ''JPEG'' else ''PNG'') (Some 95)
            = Inr (content resp)"
    "media_type resp =
          (if bgcolor ru \<noteq> None \<and> bgcolor ru \<noteq> Some [] then ''image/jpeg'' else ''image/png'')"
    "status_code resp = 200"
    by blast+
next
  fix resp
  assume "fst (v2_remove_background_from_base64 env g2 rb) = Inr resp"
  then obtain out where "composite_and_encode env (bgcolor rb) out = Inr resp"
    using v2_base64_response by blast
  from encoded_format [OF this] show
    "\<exists>im. Image_save env im
              (if bgcolor rb \<noteq> None \<and> bgcolor rb \<noteq> Some [] then ''JPEG'' else ''PNG'') (Some 95)
            = Inr (content resp)"
    "media_type resp =
          (if bgcolor rb \<noteq> None \<and> bgcolor rb \<noteq> Some [] then ''image/jpeg'' else ''image/png'')"
    "status_code resp = 200"
    by blast+
next
  fix resp
  assume "fst (wbg_remove_background_from_url env g3 ru) = Inr resp"
  then obtain out where "composite_and_encode env (bgcolor ru) out = Inr resp"
    using wbg_url_response by blast
  from encoded_format [OF this] show
    "\<exists>im. Image_save env im
              (if bgcolor ru \<noteq> None \<and> bgcolor ru \<noteq> Some [] then ''JPEG'' else ''PNG'') (Some 95)
            = Inr (content resp)"
    "media_type resp =
          (if bgcolor ru \<noteq> None \<and> bgcolor ru \<noteq> Some [] then ''image/jpeg'' else ''image/png'')"
    "status_code resp = 200"
    by blast+
next
  fix resp
  assume "fst (wbg_remove_background_from_base64 env g3 rb) = Inr resp"
  then obtain out where "composite_and_encode env (bgcolor rb) out = Inr resp"
    using wbg_base64_response by blast
  from encoded_format [OF this] show
    "\<exists>im. Image_save env im
              (if bgcolor rb \<noteq> None \<and> bgcolor rb \<noteq> Some [] then ''JPEG'' else ''PNG'') (Some 95)
            = Inr (content resp)"
    "media_type resp =
          (if bgcolor rb \<noteq> None \<and> bgcolor rb \<noteq> Some [] then ''image/jpeg'' else ''image/png'')"
    "status_code resp = 200"
    by blast+
qed

lemma demo_encode:
  "composite_and_encode demo_env (Some [255, 255, 255]) demo_cutout =
     Inr \<lparr>status_code = 200, content = [3], media_type = ''image/jpeg'', headers = []\<rparr>"
  "composite_and_encode demo_env None demo_cutout =
     Inr \<lparr>status_code = 200, content = [2], media_type = ''image/png'', headers = []\<rparr>"
  "composite_and_encode demo_env (Some []) demo_cutout =
     Inr \<lparr>status_code = 200, content = [2], media_type = ''image/png'', headers = []\<rparr>"
  by (simp_all add: composite_and_encode_def composite_bgcolor_def encode_response_def
      alpha_composite_def Image_new_def convert_def demo_cutout_def demo_env_def)

text \<open>
  C3 as stated ("JPEG if and only if bgcolor is supplied") fails when bgcolor is supplied
  as the empty list: the test \<^verbatim>\<open>if request.bgcolor\<close> is false for it, and the answer
  is a PNG.
\<close>

theorem empty_bgcolor_gives_png:
  "bgcolor (demo_base64_request ''AQ=='' (Some [])) \<noteq> None
   \<and> fst (v2_remove_background_from_base64 demo_env v2_start (demo_base64_request ''AQ=='' (Some [])))
       = Inr \<lparr>status_code = 200, content = [2], media_type = ''image/png'', headers = []\<rparr>
   \<and> fst (wbg_remove_background_from_url demo_env wbg_start (demo_url_request ''http://ok'' (Some [])))
       = Inr \<lparr>status_code = 200, content = [2], media_type = ''image/png'', headers = []\<rparr>"
  using v2_base64_reach [of demo_env "demo_base64_request ''AQ=='' (Some [])" "[1]" demo_image v2_start 7 demo_cutout]
    wbg_url_reach [of demo_env "demo_url_request ''http://ok'' (Some [])" wbg_start "[1]" demo_image 7 demo_cutout]
  by (simp add: demo_reach demo_encode)

theorem output_format_by_bgcolor_witness:
  "fst (v2_remove_background_from_url demo_env v2_start (demo_url_request ''http://ok'' (Some [255, 255, 255])))
     = Inr \<lparr>status_code = 200, content = [3], media_type = ''image/jpeg'', headers = []\<rparr>
   \<and> fst (v2_remove_background_from_base64 demo_env v2_start (demo_base64_request ''AQ=='' None))
     = Inr \<lparr>status_code = 200, content = [2], media_type = ''image/png'', headers = []\<rparr>
   \<and> fst (wbg_remove_background_from_url demo_env wbg_start (demo_url_request ''http://ok'' (Some [255, 255, 255])))
     = Inr \<lparr>status_code = 200, content = [3], media_type = ''image/jpeg'', headers = []\<rparr>
   \<and> fst (wbg_remove_background_from_base64 demo_env wbg_start (demo_base64_request ''AQ=='' None))
     = Inr \<lparr>status_code = 200, content = [2], media_type = ''image/png'', headers = []\<rparr>
   \<and> (\<exists>im. Image_save demo_env im ''JPEG'' (Some 95) = Inr [3])
   \<and> (\<exists>im. Image_save demo_env im ''PNG'' (Some 95) = Inr [2])"
proof -
  let ?ru = "demo_url_request ''http://ok'' (Some [255, 255, 255])"
  let ?rb = "demo_base64_request ''AQ=='' None"
  let ?jpeg = "\<lparr>status_code = 200, content = [3], media_type = ''image/jpeg'', headers = []\<rparr>"
  let ?png = "\<lparr>status_code = 200, content = [2], media_type = ''image/png'', headers = []\<rparr>"
  have a: "fst (v2_remove_background_from_url demo_env v2_start ?ru) = Inr ?jpeg"
    using v2_url_reach [of demo_env ?ru v2_start "[1]" demo_image 7 demo_cutout]
    by (simp add: demo_reach demo_encode)
  have b: "fst (v2_remove_background_from_base64 demo_env v2_start ?rb) = Inr ?png"
    using v2_base64_reach [of demo_env ?rb "[1]" demo_image v2_start 7 demo_cutout]
    by (simp add: demo_reach demo_encode)
  have c: "fst (wbg_remove_background_from_url demo_env wbg_start ?ru) = Inr ?jpeg"
    using wbg_url_reach [of demo_env ?ru wbg_start "[1]" demo_image 7 demo_cutout]
    by (simp add: demo_reach demo_encode)
  have d: "fst (wbg_remove_background_from_base64 demo_env wbg_start ?rb) = Inr ?png"
    using wbg_base64_reach [of demo_env ?rb "[1]" demo_image wbg_start 7 demo_cutout]
    by (simp add: demo_reach demo_encode)
  note t = output_format_by_bgcolor [of demo_env v2_start ?ru ?rb wbg_start]
  have j: "\<exists>im. Image_save demo_env im ''JPEG'' (Some 95) = Inr [3]"
    using t [THEN conjunct1, rule_format, OF a] by simp
  have p: "\<exists>im. Image_save demo_env im ''PNG'' (Some 95) = Inr [2]"
    using t [THEN conjunct2, THEN conjunct1, rule_format, OF b] by simp
  have j': "\<exists>im. Image_save demo_env im ''JPEG'' (Some 95) = Inr [3]"
    using t [THEN conjunct2, THEN conjunct2, THEN conjunct1, rule_format, OF c] by simp
  have p': "\<exists>im. Image_save demo_env im ''PNG'' (Some 95) = Inr [2]"
    using t [THEN conjunct2, THEN conjunct2, THEN conjunct2, rule_format, OF d] by simp
  show ?thesis using a b c d j p j' p' by simp
qed

section \<open>Compositing on white\<close>

lemma white_canvas_composite:
  assumes "mode out = ''RGBA''"
  shows "alpha_composite (Image_new ''RGBA'' (size_px out) (255, 255, 255, 255)) out =
           Inr \<lparr>mode = ''RGBA'', size_px = size_px out,
                pixels = map2 over (replicate (fst (size_px out) * snd (size_px out)) (255, 255, 255, 255))
                           (pixels out),
                format = None\<rparr>"
  using assms by (simp add: alpha_composite_def Image_new_def)

lemma white_composite_and_encode:
  assumes "mode out = ''RGBA''"
    and "alpha_composite (Image_new ''RGBA'' (size_px out) (255, 255, 255, 255)) out = Inr composed"
  shows "composite_and_encode env (Some [255, 255, 255]) out =
           (case Image_save env (convert composed ''RGB'') ''JPEG'' (Some 95) of
              Inl e \<Rightarrow> Inl e
            | Inr output_bytes \<Rightarrow>
                Inr \<lparr>status_code = 200, content = output_bytes, media_type = ''image/jpeg'',
                     headers = []\<rparr>)"
  using assms
  by (simp add: composite_and_encode_def composite_bgcolor_def encode_response_def)

lemma white_pixels:
  assumes "length (pixels out) = fst (size_px out) * snd (size_px out)"
    and "i < length (pixels out)" and "pixels out ! i = (r, g, b, 0)"
  shows "map2 over (replicate (fst (size_px out) * snd (size_px out)) (255, 255, 255, 255))
           (pixels out) ! i = (255, 255, 255, 255)"
  using assms by (simp add: blend_def)

text \<open>
  C2. With \<open>bgcolor = [255, 255, 255]\<close> and an RGBA output \<open>out\<close> of the model (with as
  many pixels as its size says), the compositing block puts \<open>out\<close> over a canvas of the
  same size filled with (255, 255, 255, 255); the composite has the size of \<open>out\<close>, and
  at every pixel where \<open>out\<close> has alpha 0 it is white, before and after the conversion to
  RGB. The URL and base64 handlers of both servers give the converted composite to the
  encoder as JPEG at quality 95 and answer with media type image/jpeg.
\<close>

theorem white_bgcolor_composite:
  assumes "mode out = ''RGBA''"
    and "length (pixels out) = fst (size_px out) * snd (size_px out)"
  shows "\<exists>composed.
           alpha_composite (Image_new ''RGBA'' (size_px out) (255, 255, 255, 255)) out = Inr composed
         \<and> size_px composed = size_px out
         \<and> (\<forall>i r g b. i < length (pixels out) \<and> pixels out ! i = (r, g, b, 0) \<longrightarrow>
               pixels composed ! i = (255, 255, 255, 255)
             \<and> pixels (convert composed ''RGB'') ! i = (255, 255, 255, 255))
         \<and> composite_bgcolor (Some [255, 255, 255]) out = Inr (convert composed ''RGB'')
         \<and> (\<forall>g r data im s.
              bgcolor r = Some [255, 255, 255] \<and> fst (fetch env (image_url r) g) = Inr data
              \<and> Image_open env data = Inr im \<and> fst (v2_init_session env g) = Inr s
              \<and> remove_image env im s = Inr out \<longrightarrow>
              fst (v2_remove_background_from_url env g r) =
                except_Exception env
                  (case Image_save env (convert composed ''RGB'') ''JPEG'' (Some 95) of
                     Inl e \<Rightarrow> Inl e
                   | Inr output_bytes \<Rightarrow>
                       Inr \<lparr>status_code = 200, content = output_bytes,
                            media_type = ''image/jpeg'', headers = []\<rparr>))
         \<and> (\<forall>g r data im s.
              bgcolor r = Some [255, 255, 255] \<and> b64decode env (image_base64 r) = Inr data
              \<and> Image_open env data = Inr im \<and> fst (v2_init_session env g) = Inr s
              \<and> remove_image env im s = Inr out \<longrightarrow>
              fst (v2_remove_background_from_base64 env g r) =
                except_Exception env
                  (case Image_save env (convert composed ''RGB'') ''JPEG'' (Some 95) of
                     Inl e \<Rightarrow> Inl e
                   | Inr output_bytes \<Rightarrow>
                       Inr \<lparr>status_code = 200, content = output_bytes,
                            media_type = ''image/jpeg'', headers = []\<rparr>))
         \<and> (\<forall>g r data im m.
              bgcolor r = Some [255, 255, 255] \<and> fst (fetch env (image_url r) g) = Inr data
              \<and> Image_open env data = Inr im \<and> fst (get_model env g) = Inr m
              \<and> model_remove_background env m im = Inr out \<longrightarrow>
              fst (wbg_remove_background_from_url env g r) =
                except_Exception env
                  (case Image_save env (convert composed ''RGB'') ''JPEG'' (Some 95) of
                     Inl e \<Rightarrow> Inl e
                   | Inr output_bytes \<Rightarrow>
                       Inr \<lparr>status_code = 200, content = output_bytes,
                            media_type = ''image/jpeg'', headers = []\<rparr>))
         \<and> (\<forall>g r data im m.
              bgcolor r = Some [255, 255, 255] \<and> b64decode env (image_base64 r) = Inr data
              \<and> Image_open env data = Inr im \<and> fst (get_model env g) = Inr m
              \<and> model_remove_background env m im = Inr out \<longrightarrow>
              fst (wbg_remove_background_from_base64 env g r) =
                except_Exception env
                  (case Image_save env (convert composed ''RGB'') ''JPEG'' (Some 95) of
                     Inl e \<Rightarrow> Inl e
                   | Inr output_bytes \<Rightarrow>
                       Inr \<lparr>status_code = 200, content = output_bytes,
                            media_type = ''image/jpeg'', headers = []\<rparr>))"
proof -
  define composed where "composed =
    \<lparr>mode = ''RGBA'', size_px = size_px out,
     pixels = map2 over (replicate (fst (size_px out) * snd (size_px out)) (255, 255, 255, 255))
                (pixels out),
     format = None\<rparr>"
  have ac: "alpha_composite (Image_new ''RGBA'' (size_px out) (255, 255, 255, 255)) out = Inr composed"
    by (simp add: composed_def white_canvas_composite [OF assms(1)])
  have enc: "composite_and_encode env (Some [255, 255, 255]) out =
           (case Image_save env (convert composed ''RGB'') ''JPEG'' (Some 95) of
              Inl e \<Rightarrow> Inl e
            | Inr output_bytes \<Rightarrow>
                Inr \<lparr>status_code = 200, content = output_bytes, media_type = ''image/jpeg'',
                     headers = []\<rparr>)"
    by (rule white_composite_and_encode [OF assms(1) ac])
  have sz: "size_px composed = size_px out"
    by (simp add: composed_def)
  have px: "pixels composed ! i = (255, 255, 255, 255)
             \<and> pixels (convert composed ''RGB'') ! i = (255, 255, 255, 255)"
    if "i < length (pixels out) \<and> pixels out ! i = (r, g, b, 0)" for i r g b
  proof -
    have 1: "pixels composed ! i = (255, 255, 255, 255)"
      using that white_pixels [OF assms(2), of i r g b] by (simp add: composed_def)
    have "i < length (pixels composed)"
      using that assms(2) by (simp add: composed_def)
    then have "pixels (convert composed ''RGB'') ! i = drop_alpha (pixels composed ! i)"
      by (simp add: convert_def)
    with 1 show ?thesis by simp
  qed
  have cb: "composite_bgcolor (Some [255, 255, 255]) out = Inr (convert composed ''RGB'')"
    using assms(1) ac by (simp add: composite_bgcolor_def)
  have h1: "fst (v2_remove_background_from_url env g r) =
                except_Exception env
                  (case Image_save env (convert composed ''RGB'') ''JPEG'' (Some 95) of
                     Inl e \<Rightarrow> Inl e
                   | Inr output_bytes \<Rightarrow>
                       Inr \<lparr>status_code = 200, content = output_bytes,
                            media_type = ''image/jpeg'', headers = []\<rparr>)"
    if "bgcolor r = Some [255, 255, 255] \<and> fst (fetch env (image_url r) g) = Inr data
              \<and> Image_open env data = Inr im \<and> fst (v2_init_session env g) = Inr s
              \<and> remove_image env im s = Inr out" for g r data im s
    using that v2_url_reach [of env r g data im s out] by (simp add: enc)
  have h2: "fst (v2_remove_background_from_base64 env g r) =
                except_Exception env
                  (case Image_save env (convert composed ''RGB'') ''JPEG'' (Some 95) of
                     Inl e \<Rightarrow> Inl e
                   | Inr output_bytes \<Rightarrow>
                       Inr \<lparr>status_code = 200, content = output_bytes,
                            media_type = ''image/jpeg'', headers = []\<rparr>)"
    if "bgcolor r = Some [255, 255, 255] \<and> b64decode env (image_base64 r) = Inr data
              \<and> Image_open env data = Inr im \<and> fst (v2_init_session env g) = Inr s
              \<and> remove_image env im s = Inr out" for g r data im s
    using that v2_base64_reach [of env r data im g s out] by (simp add: enc)
  have h3: "fst (wbg_remove_background_from_url env g r) =
                except_Exception env
                  (case Image_save env (convert composed ''RGB'') ''JPEG'' (Some 95) of
                     Inl e \<Rightarrow> Inl e
                   | Inr output_bytes \<Rightarrow>
                       Inr \<lparr>status_code = 200, content = output_bytes,
                            media_type = ''image/jpeg'', headers = []\<rparr>)"
    if "bgcolor r = Some [255, 255, 255] \<and> fst (fetch env (image_url r) g) = Inr data
              \<and> Image_open env data = Inr im \<and> fst (get_model env g) = Inr m
              \<and> model_remove_background env m im = Inr out" for g r data im m
    using that wbg_url_reach [of env r g data im m out] by (simp add: enc)
  have h4: "fst (wbg_remove_background_from_base64 env g r) =
                except_Exception env
                  (case Image_save env (convert composed ''RGB'') ''JPEG'' (Some 95) of
                     Inl e \<Rightarrow> Inl e
                   | Inr output_bytes \<Rightarrow>
                       Inr \<lparr>status_code = 200, content = output_bytes,
                            media_type = ''image/jpeg'', headers = []\<rparr>)"
    if "bgcolor r = Some [255, 255, 255] \<and> b64decode env (image_base64 r) = Inr data
              \<and> Image_open env data = Inr im \<and> fst (get_model env g) = Inr m
              \<and> model_remove_background env m im = Inr out" for g r data im m
    using that wbg_base64_reach [of env r data im g m out] by (simp add: enc)
  show ?thesis
    apply (rule exI [of _ composed])
    apply (intro conjI)
           apply (rule ac)
          apply (rule sz)
         apply (intro allI impI, erule px)
        apply (rule cb)
       apply (intro allI impI, erule h1)
      apply (intro allI impI, erule h2)
     apply (intro allI impI, erule h3)
    apply (intro allI impI, erule h4)
    done
qed

theorem white_bgcolor_composite_witness:
  "mode demo_cutout = ''RGBA''
   \<and> length (pixels demo_cutout) = fst (size_px demo_cutout) * snd (size_px demo_cutout)
   \<and> pixels demo_cutout ! 0 = (10, 20, 30, 0)
   \<and> (\<exists>composed.
         alpha_composite (Image_new ''RGBA'' (size_px demo_cutout) (255, 255, 255, 255)) demo_cutout
           = Inr composed
       \<and> pixels composed ! 0 = (255, 255, 255, 255)
       \<and> pixels (convert composed ''RGB'') ! 0 = (255, 255, 255, 255))
   \<and> fst (v2_remove_background_from_url demo_env v2_start
            (demo_url_request ''http://ok'' (Some [255, 255, 255])))
       = Inr \<lparr>status_code = 200, content = [3], media_type = ''image/jpeg'', headers = []\<rparr>
   \<and> fst (v2_remove_background_from_base64 demo_env v2_start
            (demo_base64_request ''AQ=='' (Some [255, 255, 255])))
       = Inr \<lparr>status_code = 200, content = [3], media_type = ''image/jpeg'', headers = []\<rparr>
   \<and> fst (wbg_remove_background_from_url demo_env wbg_start
            (demo_url_request ''http://ok'' (Some [255, 255, 255])))
       = Inr \<lparr>status_code = 200, content = [3], media_type = ''image/jpeg'', headers = []\<rparr>
   \<and> fst (wbg_remove_background_from_base64 demo_env wbg_start
            (demo_base64_request ''AQ=='' (Some [255, 255, 255])))
       = Inr \<lparr>status_code = 200, content = [3], media_type = ''image/jpeg'', headers = []\<rparr>"
proof -
  let ?ru = "demo_url_request ''http://ok'' (Some [255, 255, 255])"
  let ?rb = "demo_base64_request ''AQ=='' (Some [255, 255, 255])"
  have m: "mode demo_cutout = ''RGBA''"
    and l: "length (pixels demo_cutout) = fst (size_px demo_cutout) * snd (size_px demo_cutout)"
    and p0: "0 < length (pixels demo_cutout) \<and> pixels demo_cutout ! 0 = (10, 20, 30, 0)"
    by (simp_all add: demo_cutout_def)
  have u: "bgcolor ?ru = Some [255, 255, 255]
      \<and> fst (fetch demo_env (image_url ?ru) v2_start) = Inr [1]
      \<and> Image_open demo_env [1] = Inr demo_image \<and> fst (v2_init_session demo_env v2_start) = Inr 7
      \<and> remove_image demo_env demo_image 7 = Inr demo_cutout"
    and b: "bgcolor ?rb = Some [255, 255, 255]
      \<and> b64decode demo_env (image_base64 ?rb) = Inr [1]
      \<and> Image_open demo_env [1] = Inr demo_image \<and> fst (v2_init_session demo_env v2_start) = Inr 7
      \<and> remove_image demo_env demo_image 7 = Inr demo_cutout"
    and u': "bgcolor ?ru = Some [255, 255, 255]
      \<and> fst (fetch demo_env (image_url ?ru) wbg_start) = Inr [1]
      \<and> Image_open demo_env [1] = Inr demo_image \<and> fst (get_model demo_env wbg_start) = Inr 7
      \<and> model_remove_background demo_env 7 demo_image = Inr demo_cutout"
    and b': "bgcolor ?rb = Some [255, 255, 255]
      \<and> b64decode demo_env (image_base64 ?rb) = Inr [1]
      \<and> Image_open demo_env [1] = Inr demo_image \<and> fst (get_model demo_env wbg_start) = Inr 7
      \<and> model_remove_background demo_env 7 demo_image = Inr demo_cutout"
    by (simp_all add: demo_reach)
  from white_bgcolor_composite [OF m l, of demo_env] obtain composed where
    ac: "alpha_composite (Image_new ''RGBA'' (size_px demo_cutout) (255, 255, 255, 255)) demo_cutout
           = Inr composed"
    and px: "\<forall>i r g b. i < length (pixels demo_cutout) \<and> pixels demo_cutout ! i = (r, g, b, 0) \<longrightarrow>
               pixels composed ! i = (255, 255, 255, 255)
             \<and> pixels (convert composed ''RGB'') ! i = (255, 255, 255, 255)"
    and h1: "\<forall>g r data im s.
              bgcolor r = Some [255, 255, 255] \<and> fst (fetch demo_env (image_url r) g) = Inr data
              \<and> Image_open demo_env data = Inr im \<and> fst (v2_init_session demo_env g) = Inr s
              \<and> remove_image demo_env im s = Inr demo_cutout \<longrightarrow>
              fst (v2_remove_background_from_url demo_env g r) =
                except_Exception demo_env
                  (case Image_save demo_env (convert composed ''RGB'') ''JPEG'' (Some 95) of
                     Inl e \<Rightarrow> Inl e
                   | Inr output_bytes \<Rightarrow>
                       Inr \<lparr>status_code = 200, content = output_bytes,
                            media_type = ''image/jpeg'', headers = []\<rparr>)"
    and h2: "\<forall>g r data im s.
              bgcolor r = Some [255, 255, 255] \<and> b64decode demo_env (image_base64 r) = Inr data
              \<and> Image_open demo_env data = Inr im \<and> fst (v2_init_session demo_env g) = Inr s
              \<and> remove_image demo_env im s = Inr demo_cutout \<longrightarrow>
              fst (v2_remove_background_from_base64 demo_env g r) =
                except_Exception demo_env
                  (case Image_save demo_env (convert composed ''RGB'') ''JPEG'' (Some 95) of
                     Inl e \<Rightarrow> Inl e
                   | Inr output_bytes \<Rightarrow>
                       Inr \<lparr>status_code = 200, content = output_bytes,
                            media_type = ''image/jpeg'', headers = []\<rparr>)"
    and h3: "\<forall>g r data im m.
              bgcolor r = Some [255, 255, 255] \<and> fst (fetch demo_env (image_url r) g) = Inr data
              \<and> Image_open demo_env data = Inr im \<and> fst (get_model demo_env g) = Inr m
              \<and> model_remove_background demo_env m im = Inr demo_cutout \<longrightarrow>
              fst (wbg_remove_background_from_url demo_env g r) =
                except_Exception demo_env
                  (case Image_save demo_env (convert composed ''RGB'') ''JPEG'' (Some 95) of
                     Inl e \<Rightarrow> Inl e
                   | Inr output_bytes \<Rightarrow>
                       Inr \<lparr>status_code = 200, content = output_bytes,
                            media_type = ''image/jpeg'', headers = []\<rparr>)"
    and h4: "\<forall>g r data im m.
              bgcolor r = Some [255, 255, 255] \<and> b64decode demo_env (image_base64 r) = Inr data
              \<and> Image_open demo_env data = Inr im \<and> fst (get_model demo_env g) = Inr m
              \<and> model_remove_background demo_env m im = Inr demo_cutout \<longrightarrow>
              fst (wbg_remove_background_from_base64 demo_env g r) =
                except_Exception demo_env
                  (case Image_save demo_env (convert composed ''RGB'') ''JPEG'' (Some 95) of
                     Inl e \<Rightarrow> Inl e
                   | Inr output_bytes \<Rightarrow>
                       Inr \<lparr>status_code = 200, content = output_bytes,
                            media_type = ''image/jpeg'', headers = []\<rparr>)"
    by (elim exE conjE)
  have sv: "Image_save demo_env (convert composed ''RGB'') ''JPEG'' (Some 95) = Inr [3]"
    by (simp add: demo_env_def convert_def)
  note w = px [rule_format, OF p0]
  note r1 = h1 [rule_format, OF u] and r2 = h2 [rule_format, OF b]
    and r3 = h3 [rule_format, OF u'] and r4 = h4 [rule_format, OF b']
  have ex: "\<exists>composed.
         alpha_composite (Image_new ''RGBA'' (size_px demo_cutout) (255, 255, 255, 255)) demo_cutout
           = Inr composed
       \<and> pixels composed ! 0 = (255, 255, 255, 255)
       \<and> pixels (convert composed ''RGB'') ! 0 = (255, 255, 255, 255)"
    using ac w by blast
  show ?thesis
    using m l p0 ex by (simp add: r1 r2 r3 r4 sv)
qed

section \<open>A valid upload and its file name\<close>

lemma not_singleton: "length xs \<noteq> 1 \<Longrightarrow> xs \<noteq> [b]"
  by auto

lemma demo_upload_named_open:
  "n \<noteq> 1 \<Longrightarrow> Image_open demo_env (file_read (demo_upload_named name n)) = Inr demo_image"
  by (simp add: demo_env_def) (simp add: not_singleton)

lemma demo_upload_open:
  "n \<noteq> 1 \<Longrightarrow> Image_open demo_env (file_read (demo_upload n)) = Inr demo_image"
  unfolding demo_upload_def by (rule demo_upload_named_open)

text \<open>
  What the three upload handlers do with an upload within the size cap once the model
  has returned: the outcome is the one of building the response.
\<close>

lemma v1_upload_after_model:
  assumes "length (file_read file) \<le> 10 * 1024 * 1024"
    and "remove_bytes env (file_read file) (v1_session g) = Inr output_data"
  shows "v1_remove_background env g file =
           (except_Exception env (upload_response output_data file),
            g\<lparr>trace := trace g @ [ModelRun]\<rparr>)"
  using assms by (simp add: v1_remove_background_def v1_remove_background_body_def)

lemma v2_upload_after_model:
  assumes "length (file_read file) \<le> 10 * 1024 * 1024"
    and "v2_init_session env g = (Inr s, g')"
    and "remove_bytes env (file_read file) s = Inr output_data"
  shows "v2_remove_background env g file =
           (except_Exception env (upload_response output_data file),
            g'\<lparr>trace := trace g' @ [ModelRun]\<rparr>)"
  using assms by (simp add: v2_remove_background_def v2_remove_background_body_def)

lemma wbg_upload_after_model:
  assumes "length (file_read file) \<le> 10 * 1024 * 1024"
    and "Image_open env (file_read file) = Inr im"
    and "get_model env g = (Inr m, g')"
    and "model_remove_background env m im = Inr output_image"
    and "Image_save env output_image ''PNG'' None = Inr output_bytes"
  shows "wbg_remove_background env g file =
           (except_Exception env (upload_response output_bytes file),
            g'\<lparr>trace := trace g' @ [ModelRun]\<rparr>)"
  using assms
  by (simp add: wbg_remove_background_def wbg_remove_background_body_def wbg_run_model_def)

text \<open>
  With a file name that Latin-1 can encode, the answer is 200 with media type image/png,
  the model's bytes as body and the header naming processed_<name>.
\<close>

lemma latin1_filename_is_200:
  assumes "length (file_read file) \<le> 10 * 1024 * 1024"
    and "filename file = Some name" and "list_all (\<lambda>c. c < 256) name"
    and "remove_bytes env (file_read file) (v1_session g) = Inr output_data"
  shows "fst (v1_remove_background env g file) =
           Inr \<lparr>status_code = 200, content = output_data, media_type = ''image/png'',
                headers = [(''Content-Disposition'',
                            ''inline; filename=\"processed_'' @ map char_of name @ ''\"'')]\<rparr>"
  using assms by (simp add: v1_upload_after_model upload_response_latin1)

lemma latin1_filename_is_200_v2:
  assumes "length (file_read file) \<le> 10 * 1024 * 1024"
    and "filename file = Some name" and "list_all (\<lambda>c. c < 256) name"
    and "v2_init_session env g = (Inr s, g')"
    and "remove_bytes env (file_read file) s = Inr output_data"
  shows "fst (v2_remove_background env g file) =
           Inr \<lparr>status_code = 200, content = output_data, media_type = ''image/png'',
                headers = [(''Content-Disposition'',
                            ''inline; filename=\"processed_'' @ map char_of name @ ''\"'')]\<rparr>"
  using v2_upload_after_model [OF assms(1,4,5)]
  by (simp add: upload_response_latin1 [OF assms(2,3)])

lemma latin1_filename_is_200_wbg:
  assumes "length (file_read file) \<le> 10 * 1024 * 1024"
    and "filename file = Some name" and "list_all (\<lambda>c. c < 256) name"
    and "Image_open env (file_read file) = Inr im"
    and "get_model env g = (Inr m, g')"
    and "model_remove_background env m im = Inr output_image"
    and "Image_save env output_image ''PNG'' None = Inr output_bytes"
  shows "fst (wbg_remove_background env g file) =
           Inr \<lparr>status_code = 200, content = output_bytes, media_type = ''image/png'',
                headers = [(''Content-Disposition'',
                            ''inline; filename=\"processed_'' @ map char_of name @ ''\"'')]\<rparr>"
  using wbg_upload_after_model [OF assms(1,4,5,6,7)]
  by (simp add: upload_response_latin1 [OF assms(2,3)])

text \<open>
  C7 (fails on the code). A valid upload within the size cap whose file name has a
  character above U+00FF: the handler runs the model, then building the response raises
  \<open>UnicodeEncodeError\<close> inside the \<^verbatim>\<open>try\<close> block, and the handler answers 500 instead of
  200 with the image. This holds on each of the three servers, whatever the model
  returned.
\<close>

theorem non_latin1_filename_is_500:
  assumes "length (file_read file) \<le> 10 * 1024 * 1024"
    and "filename file = Some name"
    and "\<not> list_all (\<lambda>c. c < 256) name"
  shows "(\<forall>output_data.
            remove_bytes env (file_read file) (v1_session g1) = Inr output_data \<longrightarrow>
            v1_remove_background env g1 file =
              (Inl (HTTPException 500 (''Processing failed: '' @ str env UnicodeEncodeError)),
               g1\<lparr>trace := trace g1 @ [ModelRun]\<rparr>))
       \<and> (\<forall>s g' output_data.
            v2_init_session env g2 = (Inr s, g')
            \<and> remove_bytes env (file_read file) s = Inr output_data \<longrightarrow>
            v2_remove_background env g2 file =
              (Inl (HTTPException 500 (''Processing failed: '' @ str env UnicodeEncodeError)),
               g'\<lparr>trace := trace g' @ [ModelRun]\<rparr>))
       \<and> (\<forall>im m g' output_image output_bytes.
            Image_open env (file_read file) = Inr im \<and> get_model env g3 = (Inr m, g')
            \<and> model_remove_background env m im = Inr output_image
            \<and> Image_save env output_image ''PNG'' None = Inr output_bytes \<longrightarrow>
            wbg_remove_background env g3 file =
              (Inl (HTTPException 500 (''Processing failed: '' @ str env UnicodeEncodeError)),
               g'\<lparr>trace := trace g' @ [ModelRun]\<rparr>))"
proof (intro conjI allI impI)
  fix output_data
  assume "remove_bytes env (file_read file) (v1_session g1) = Inr output_data"
  then show "v1_remove_background env g1 file =
              (Inl (HTTPException 500 (''Processing failed: '' @ str env UnicodeEncodeError)),
               g1\<lparr>trace := trace g1 @ [ModelRun]\<rparr>)"
    using v1_upload_after_model [OF assms(1)]
    by (simp add: upload_response_not_latin1 [OF assms(2,3)])
next
  fix s g' output_data
  assume "v2_init_session env g2 = (Inr s, g')
            \<and> remove_bytes env (file_read file) s = Inr output_data"
  then have i: "v2_init_session env g2 = (Inr s, g')"
    and r: "remove_bytes env (file_read file) s = Inr output_data"
    by simp_all
  show "v2_remove_background env g2 file =
              (Inl (HTTPException 500 (''Processing failed: '' @ str env UnicodeEncodeError)),
               g'\<lparr>trace := trace g' @ [ModelRun]\<rparr>)"
    using v2_upload_after_model [OF assms(1) i r]
    by (simp add: upload_response_not_latin1 [OF assms(2,3)])
next
  fix im m g' output_image output_bytes
  assume "Image_open env (file_read file) = Inr im \<and> get_model env g3 = (Inr m, g')
            \<and> model_remove_background env m im = Inr output_image
            \<and> Image_save env output_image ''PNG'' None = Inr output_bytes"
  then have o: "Image_open env (file_read file) = Inr im"
    and i: "get_model env g3 = (Inr m, g')"
    and r: "model_remove_background env m im = Inr output_image"
    and v: "Image_save env output_image ''PNG'' None = Inr output_bytes"
    by simp_all
  show "wbg_remove_background env g3 file =
              (Inl (HTTPException 500 (''Processing failed: '' @ str env UnicodeEncodeError)),
               g'\<lparr>trace := trace g' @ [ModelRun]\<rparr>)"
    using wbg_upload_after_model [OF assms(1) o i r v]
    by (simp add: upload_response_not_latin1 [OF assms(2,3)])
qed

text \<open>
  The file name of the example is U+732B (a cat) followed by ".png"; the same upload
  under the name cat.jpg is answered with 200.
\<close>

theorem non_latin1_filename_is_500_witness:
  "length (file_read (demo_upload_named [29483, 46, 112, 110, 103] 3)) \<le> 10 * 1024 * 1024
   \<and> filename (demo_upload_named [29483, 46, 112, 110, 103] 3) = Some [29483, 46, 112, 110, 103]
   \<and> \<not> list_all (\<lambda>c. c < 256) [29483, 46, 112, 110, 103 :: nat]
   \<and> Image_open demo_env (file_read (demo_upload_named [29483, 46, 112, 110, 103] 3)) = Inr demo_image
   \<and> v1_remove_background demo_env \<lparr>trace = [], v1_session = 7\<rparr>
        (demo_upload_named [29483, 46, 112, 110, 103] 3) =
       (Inl (HTTPException 500 ''Processing failed: latin-1 codec cannot encode character''),
        \<lparr>trace = [ModelRun], v1_session = 7\<rparr>)
   \<and> v2_remove_background demo_env v2_start (demo_upload_named [29483, 46, 112, 110, 103] 3) =
       (Inl (HTTPException 500 ''Processing failed: latin-1 codec cannot encode character''),
        \<lparr>trace = [ModelInit True, ModelRun], session = Some 7\<rparr>)
   \<and> wbg_remove_background demo_env wbg_start (demo_upload_named [29483, 46, 112, 110, 103] 3) =
       (Inl (HTTPException 500 ''Processing failed: latin-1 codec cannot encode character''),
        \<lparr>trace = [ModelInit True, ModelRun], model = Some 7\<rparr>)
   \<and> fst (v1_remove_background demo_env \<lparr>trace = [], v1_session = 7\<rparr> (demo_upload 3)) =
       Inr \<lparr>status_code = 200, content = [2], media_type = ''image/png'',
            headers = [(''Content-Disposition'', ''inline; filename=\"processed_cat.jpg\"'')]\<rparr>"
proof -
  let ?f = "demo_upload_named [29483, 46, 112, 110, 103] 3"
  let ?g1 = "\<lparr>trace = [], v1_session = 7::nat\<rparr>"
  have a: "length (file_read ?f) \<le> 10 * 1024 * 1024"
    and b: "filename ?f = Some [29483, 46, 112, 110, 103]"
    and c: "\<not> list_all (\<lambda>c. c < 256) [29483, 46, 112, 110, 103 :: nat]"
    by simp_all
  note t = non_latin1_filename_is_500 [OF a b c, of demo_env ?g1 v2_start wbg_start]
  have s: "str demo_env UnicodeEncodeError = ''latin-1 codec cannot encode character''"
    by (simp add: demo_env_def)
  have op: "Image_open demo_env (file_read ?f) = Inr demo_image"
    by (rule demo_upload_named_open) simp
  have h1: "remove_bytes demo_env (file_read ?f) (v1_session ?g1) = Inr [2]"
    by (simp add: demo_env_def)
  have h2: "v2_init_session demo_env v2_start = (Inr 7, \<lparr>trace = [ModelInit True], session = Some 7\<rparr>)
            \<and> remove_bytes demo_env (file_read ?f) 7 = Inr [2]"
    by (simp add: demo_env_def v2_init_session_def v2_start_def)
  have h3: "Image_open demo_env (file_read ?f) = Inr demo_image
            \<and> get_model demo_env wbg_start = (Inr 7, \<lparr>trace = [ModelInit True], model = Some 7\<rparr>)
            \<and> model_remove_background demo_env 7 demo_image = Inr demo_cutout
            \<and> Image_save demo_env demo_cutout ''PNG'' None = Inr [2]"
    using op by (simp add: demo_env_def get_model_def wbg_start_def)
  note r1 = t [THEN conjunct1, rule_format, OF h1]
  note r2 = t [THEN conjunct2, THEN conjunct1, rule_format, OF h2]
  note r3 = t [THEN conjunct2, THEN conjunct2, rule_format, OF h3]
  have ok: "fst (v1_remove_background demo_env ?g1 (demo_upload 3)) =
       Inr \<lparr>status_code = 200, content = [2], media_type = ''image/png'',
            headers = [(''Content-Disposition'', ''inline; filename=\"processed_cat.jpg\"'')]\<rparr>"
  proof -
    have l: "length (file_read (demo_upload 3)) \<le> 10 * 1024 * 1024"
      by (simp add: demo_upload_def)
    have m: "remove_bytes demo_env (file_read (demo_upload 3)) (v1_session ?g1) = Inr [2]"
      by (simp add: demo_env_def)
    show ?thesis
      by (simp add: v1_upload_after_model [OF l m] demo_upload_response)
  qed
  show ?thesis
    using a b c op ok by (simp add: r1 r2 r3 s)
qed

section \<open>Characters outside the base64 alphabet\<close>

text \<open>
  The decoder skips a character that is not in the alphabet, so a text with such a
  character in front is decoded like the text without it, and the base64 route answers
  both in the same way.
\<close>

lemma py_b64decode_skips: "py_b64decode (CHR ''!'' # s) = py_b64decode s"
  by (simp add: py_b64decode_def b64_value_def)

lemma lenient_base64_same_answer:
  assumes "b64decode env = py_b64decode"
  shows "v2_remove_background_from_base64 env g2
           ((r::ImageBase64Request)\<lparr>image_base64 := CHR ''!'' # image_base64 r\<rparr>)
           = v2_remove_background_from_base64 env g2 r
       \<and> wbg_remove_background_from_base64 env g3 (r\<lparr>image_base64 := CHR ''!'' # image_base64 r\<rparr>)
           = wbg_remove_background_from_base64 env g3 r"
  using assms
  by (simp add: v2_remove_background_from_base64_def v2_remove_background_from_base64_body_def
      wbg_remove_background_from_base64_def wbg_remove_background_from_base64_body_def
      py_b64decode_skips split: sum.splits)


section \<open>One session for the process\<close>

lemma created_append [simp]: "created (xs @ ys) = created xs + created ys"
  by (simp add: created_def)

lemma runs_append [simp]: "runs (xs @ ys) = runs xs + runs ys"
  by (simp add: runs_def)

lemma created_Cons [simp]:
  "created (e # tr) = (if e = ModelInit True then 1 else 0) + created tr" "created [] = 0"
  by (simp_all add: created_def)

lemma runs_Cons [simp]:
  "runs (e # tr) = (if e = ModelRun then 1 else 0) + runs tr" "runs [] = 0"
  by (simp_all add: runs_def)

lemma snd_fetch: "snd (fetch env url g) = g\<lparr>trace := trace g @ [HttpGet url 30]\<rparr>"
  by (simp add: fetch_def Let_def split: sum.splits)

text \<open>With a session in place, the lazy block returns it and changes nothing.\<close>

lemma v2_init_session_cached: "session g = Some s \<Longrightarrow> v2_init_session env g = (Inr s, g)"
  by (simp add: v2_init_session_def)

lemma get_model_cached: "model g = Some m \<Longrightarrow> get_model env g = (Inr m, g)"
  by (simp add: get_model_def)

lemma v2_process_cached:
  assumes "session g = Some s"
  shows "session (snd (v2_process env g bgc data)) = Some s
       \<and> filter is_init (trace (snd (v2_process env g bgc data))) = filter is_init (trace g)"
  using assms
  by (simp add: v2_process_def v2_init_session_cached Let_def split: sum.splits)

lemma wbg_process_cached:
  assumes "model g = Some m"
  shows "model (snd (wbg_process env g bgc data)) = Some m
       \<and> filter is_init (trace (snd (wbg_process env g bgc data))) = filter is_init (trace g)"
  using assms
  by (simp add: wbg_process_def wbg_run_model_def get_model_cached Let_def split: sum.splits)

lemma v2_app_cached:
  assumes "session g = Some s"
  shows "session (snd (v2_app env g r)) = Some s
       \<and> filter is_init (trace (snd (v2_app env g r))) = filter is_init (trace g)"
proof (cases r)
  case (Upload up)
  with assms show ?thesis
    by (simp add: v2_remove_background_def v2_remove_background_body_def v2_init_session_cached
        Let_def split: sum.splits)
next
  case (FromUrl q)
  have "session (snd (fetch env (image_url q) g)) = Some s"
    "filter is_init (trace (snd (fetch env (image_url q) g))) = filter is_init (trace g)"
    using assms by (simp_all add: snd_fetch)
  with FromUrl show ?thesis
    using v2_process_cached [of "snd (fetch env (image_url q) g)" s env "bgcolor q"]
    by (simp add: v2_remove_background_from_url_def v2_remove_background_from_url_body_def
        case_prod_beta split: sum.splits)
next
  case (FromBase64 q)
  with assms show ?thesis
    using v2_process_cached [of g s env "bgcolor q"]
    by (simp add: v2_remove_background_from_base64_def v2_remove_background_from_base64_body_def
        case_prod_beta split: sum.splits)
qed

lemma wbg_app_cached:
  assumes "model g = Some m"
  shows "model (snd (wbg_app env g r)) = Some m
       \<and> filter is_init (trace (snd (wbg_app env g r))) = filter is_init (trace g)"
proof (cases r)
  case (Upload up)
  with assms show ?thesis
    by (simp add: wbg_remove_background_def wbg_remove_background_body_def wbg_run_model_def
        get_model_cached Let_def split: sum.splits)
next
  case (FromUrl q)
  have "model (snd (fetch env (image_url q) g)) = Some m"
    "filter is_init (trace (snd (fetch env (image_url q) g))) = filter is_init (trace g)"
    using assms by (simp_all add: snd_fetch)
  with FromUrl show ?thesis
    using wbg_process_cached [of "snd (fetch env (image_url q) g)" m env "bgcolor q"]
    by (simp add: wbg_remove_background_from_url_def wbg_remove_background_from_url_body_def
        case_prod_beta split: sum.splits)
next
  case (FromBase64 q)
  with assms show ?thesis
    using wbg_process_cached [of g m env "bgcolor q"]
    by (simp add: wbg_remove_background_from_base64_def wbg_remove_background_from_base64_body_def
        case_prod_beta split: sum.splits)
qed

text \<open>Without a session: either none is created and the model is not run, or one is.\<close>

lemma v2_init_session_first:
  assumes "session g = None"
  shows "(\<exists>e. v2_init_session env g = (Inl e, g\<lparr>trace := trace g @ [ModelInit False]\<rparr>))
       \<or> (\<exists>s. v2_init_session env g = (Inr s, g\<lparr>trace := trace g @ [ModelInit True], session := Some s\<rparr>))"
  using assms by (simp add: v2_init_session_def split: sum.splits)

lemma get_model_first:
  assumes "model g = None"
  shows "(\<exists>e. get_model env g = (Inl e, g\<lparr>trace := trace g @ [ModelInit False]\<rparr>))
       \<or> (\<exists>m. get_model env g = (Inr m, g\<lparr>trace := trace g @ [ModelInit True], model := Some m\<rparr>))"
  using assms by (simp add: get_model_def split: sum.splits)

lemma v2_process_first:
  assumes "session g = None"
  shows "(session (snd (v2_process env g bgc data)) = None
          \<and> created (trace (snd (v2_process env g bgc data))) = created (trace g)
          \<and> runs (trace (snd (v2_process env g bgc data))) = runs (trace g))
       \<or> (session (snd (v2_process env g bgc data)) \<noteq> None
          \<and> created (trace (snd (v2_process env g bgc data))) = created (trace g) + 1)"
  using v2_init_session_first [OF assms, of env] assms
  by (auto simp add: v2_process_def Let_def split: sum.splits)

lemma wbg_process_first:
  assumes "model g = None"
  shows "(model (snd (wbg_process env g bgc data)) = None
          \<and> created (trace (snd (wbg_process env g bgc data))) = created (trace g)
          \<and> runs (trace (snd (wbg_process env g bgc data))) = runs (trace g))
       \<or> (model (snd (wbg_process env g bgc data)) \<noteq> None
          \<and> created (trace (snd (wbg_process env g bgc data))) = created (trace g) + 1)"
  using get_model_first [OF assms, of env] assms
  by (auto simp add: wbg_process_def wbg_run_model_def Let_def split: sum.splits)

lemma v2_app_first:
  assumes "session g = None"
  shows "(session (snd (v2_app env g r)) = None
          \<and> created (trace (snd (v2_app env g r))) = created (trace g)
          \<and> runs (trace (snd (v2_app env g r))) = runs (trace g))
       \<or> (session (snd (v2_app env g r)) \<noteq> None
          \<and> created (trace (snd (v2_app env g r))) = created (trace g) + 1)"
proof (cases r)
  case (Upload up)
  with assms v2_init_session_first [OF assms, of env] show ?thesis
    by (auto simp add: v2_remove_background_def v2_remove_background_body_def
        Let_def split: sum.splits)
next
  case (FromUrl q)
  have s: "session (snd (fetch env (image_url q) g)) = None"
    and c: "created (trace (snd (fetch env (image_url q) g))) = created (trace g)"
    and n: "runs (trace (snd (fetch env (image_url q) g))) = runs (trace g)"
    using assms by (simp_all add: snd_fetch)
  from v2_process_first [OF s, of env "bgcolor q"] FromUrl c n s show ?thesis
    by (simp add: v2_remove_background_from_url_def v2_remove_background_from_url_body_def
        case_prod_beta split: sum.splits)
next
  case (FromBase64 q)
  from v2_process_first [OF assms, of env "bgcolor q"] FromBase64 assms show ?thesis
    by (simp add: v2_remove_background_from_base64_def v2_remove_background_from_base64_body_def
        case_prod_beta split: sum.splits)
qed

lemma wbg_app_first:
  assumes "model g = None"
  shows "(model (snd (wbg_app env g r)) = None
          \<and> created (trace (snd (wbg_app env g r))) = created (trace g)
          \<and> runs (trace (snd (wbg_app env g r))) = runs (trace g))
       \<or> (model (snd (wbg_app env g r)) \<noteq> None
          \<and> created (trace (snd (wbg_app env g r))) = created (trace g) + 1)"
proof (cases r)
  case (Upload up)
  with assms get_model_first [OF assms, of env] show ?thesis
    by (auto simp add: wbg_remove_background_def wbg_remove_background_body_def
        wbg_run_model_def Let_def split: sum.splits)
next
  case (FromUrl q)
  have s: "model (snd (fetch env (image_url q) g)) = None"
    and c: "created (trace (snd (fetch env (image_url q) g))) = created (trace g)"
    and n: "runs (trace (snd (fetch env (image_url q) g))) = runs (trace g)"
    using assms by (simp_all add: snd_fetch)
  from wbg_process_first [OF s, of env "bgcolor q"] FromUrl c n s show ?thesis
    by (simp add: wbg_remove_background_from_url_def wbg_remove_background_from_url_body_def
        case_prod_beta split: sum.splits)
next
  case (FromBase64 q)
  from wbg_process_first [OF assms, of env "bgcolor q"] FromBase64 assms show ?thesis
    by (simp add: wbg_remove_background_from_base64_def wbg_remove_background_from_base64_body_def
        case_prod_beta split: sum.splits)
qed

lemma created_filter: "created tr = created (filter is_init tr)"
  by (induction tr) (auto simp add: created_def)

lemma v2_serve_invariant:
  assumes "(session g = None \<and> created (trace g) = 0) \<or> (session g \<noteq> None \<and> created (trace g) = 1)"
  shows "(session (v2_serve env g rs) = None \<and> created (trace (v2_serve env g rs)) = 0)
       \<or> (session (v2_serve env g rs) \<noteq> None \<and> created (trace (v2_serve env g rs)) = 1)"
  using assms
proof (induction rs arbitrary: g)
  case Nil
  then show ?case by simp
next
  case (Cons r rs)
  have "(session (snd (v2_app env g r)) = None \<and> created (trace (snd (v2_app env g r))) = 0)
      \<or> (session (snd (v2_app env g r)) \<noteq> None \<and> created (trace (snd (v2_app env g r))) = 1)"
  proof (cases "session g")
    case None
    with Cons.prems v2_app_first [OF None, of env r] show ?thesis by auto
  next
    case (Some s)
    with Cons.prems v2_app_cached [OF Some, of env r]
      created_filter [of "trace (snd (v2_app env g r))"] created_filter [of "trace g"]
    show ?thesis by auto
  qed
  from Cons.IH [OF this] show ?case by simp
qed

lemma wbg_serve_invariant:
  assumes "(model g = None \<and> created (trace g) = 0) \<or> (model g \<noteq> None \<and> created (trace g) = 1)"
  shows "(model (wbg_serve env g rs) = None \<and> created (trace (wbg_serve env g rs)) = 0)
       \<or> (model (wbg_serve env g rs) \<noteq> None \<and> created (trace (wbg_serve env g rs)) = 1)"
  using assms
proof (induction rs arbitrary: g)
  case Nil
  then show ?case by simp
next
  case (Cons r rs)
  have "(model (snd (wbg_app env g r)) = None \<and> created (trace (snd (wbg_app env g r))) = 0)
      \<or> (model (snd (wbg_app env g r)) \<noteq> None \<and> created (trace (snd (wbg_app env g r))) = 1)"
  proof (cases "model g")
    case None
    with Cons.prems wbg_app_first [OF None, of env r] show ?thesis by auto
  next
    case (Some m)
    with Cons.prems wbg_app_cached [OF Some, of env r]
      created_filter [of "trace (snd (wbg_app env g r))"] created_filter [of "trace g"]
    show ?thesis by auto
  qed
  from Cons.IH [OF this] show ?case by simp
qed

text \<open>Without a session, the lazy block stores what the creation returns.\<close>

lemma v2_init_session_None:
  assumes "session g = None"
  shows "v2_init_session env g =
           (case new_session env ''u2netp'' of
              Inl e \<Rightarrow> (Inl e, g\<lparr>trace := trace g @ [ModelInit False]\<rparr>)
            | Inr s \<Rightarrow> (Inr s, g\<lparr>trace := trace g @ [ModelInit True], session := Some s\<rparr>))"
  using assms by (simp add: v2_init_session_def)

lemma get_model_None:
  assumes "model g = None"
  shows "get_model env g =
           (case WithoutBG_opensource env of
              Inl e \<Rightarrow> (Inl e, g\<lparr>trace := trace g @ [ModelInit False]\<rparr>)
            | Inr m \<Rightarrow> (Inr m, g\<lparr>trace := trace g @ [ModelInit True], model := Some m\<rparr>))"
  using assms by (simp add: get_model_def)

lemma v2_process_session:
  assumes "session g = None" and "Image_open env data = Inr im"
  shows "session (snd (v2_process env g bgc data)) =
           (case new_session env ''u2netp'' of Inl e \<Rightarrow> None | Inr s \<Rightarrow> Some s)"
  using assms
  by (simp add: v2_process_def v2_init_session_None Let_def split: sum.splits)

lemma wbg_run_model_session:
  assumes "model g = None" and "Image_open env data = Inr im"
  shows "model (snd (wbg_run_model env g data)) =
           (case WithoutBG_opensource env of Inl e \<Rightarrow> None | Inr m \<Rightarrow> Some m)"
  using assms
  by (simp add: wbg_run_model_def get_model_None split: sum.splits)

lemma wbg_process_session:
  assumes "model g = None" and "Image_open env data = Inr im"
  shows "model (snd (wbg_process env g bgc data)) =
           (case WithoutBG_opensource env of Inl e \<Rightarrow> None | Inr m \<Rightarrow> Some m)"
  using wbg_run_model_session [OF assms]
  by (simp add: wbg_process_def case_prod_beta split: sum.splits)

lemma v2_upload_session:
  assumes "session g = None" and "length (file_read up) \<le> 10 * 1024 * 1024"
  shows "session (snd (v2_remove_background env g up)) =
           (case new_session env ''u2netp'' of Inl e \<Rightarrow> None | Inr s \<Rightarrow> Some s)"
  using assms
  by (simp add: v2_remove_background_def v2_remove_background_body_def v2_init_session_None
      Let_def split: sum.splits)

lemma v2_url_session:
  assumes "session g = None" and "fst (fetch env (image_url r) g) = Inr data"
    and "Image_open env data = Inr im"
  shows "session (snd (v2_remove_background_from_url env g r)) =
           (case new_session env ''u2netp'' of Inl e \<Rightarrow> None | Inr s \<Rightarrow> Some s)"
  using v2_process_session [of "g\<lparr>trace := trace g @ [HttpGet (image_url r) 30]\<rparr>" env data im
      "bgcolor r"] assms fst_fetch_trace [OF assms(2)]
  by (simp add: v2_remove_background_from_url_def v2_remove_background_from_url_body_def
      case_prod_beta)

lemma v2_base64_session:
  assumes "session g = None" and "b64decode env (image_base64 r) = Inr data"
    and "Image_open env data = Inr im"
  shows "session (snd (v2_remove_background_from_base64 env g r)) =
           (case new_session env ''u2netp'' of Inl e \<Rightarrow> None | Inr s \<Rightarrow> Some s)"
  using v2_process_session [OF assms(1,3), of "bgcolor r"] assms(2)
  by (simp add: v2_remove_background_from_base64_def v2_remove_background_from_base64_body_def
      case_prod_beta)

lemma wbg_upload_session:
  assumes "model g = None" and "length (file_read up) \<le> 10 * 1024 * 1024"
    and "Image_open env (file_read up) = Inr im"
  shows "model (snd (wbg_remove_background env g up)) =
           (case WithoutBG_opensource env of Inl e \<Rightarrow> None | Inr m \<Rightarrow> Some m)"
proof -
  have "snd (wbg_remove_background env g up) = snd (wbg_run_model env g (file_read up))"
    using assms(2)
    by (simp add: wbg_remove_background_def wbg_remove_background_body_def Let_def
        case_prod_beta split: sum.splits)
  then show ?thesis
    using wbg_run_model_session [OF assms(1,3)] by simp
qed

lemma wbg_url_session:
  assumes "model g = None" and "fst (fetch env (image_url r) g) = Inr data"
    and "Image_open env data = Inr im"
  shows "model (snd (wbg_remove_background_from_url env g r)) =
           (case WithoutBG_opensource env of Inl e \<Rightarrow> None | Inr m \<Rightarrow> Some m)"
  using wbg_process_session [of "g\<lparr>trace := trace g @ [HttpGet (image_url r) 30]\<rparr>" env data im
      "bgcolor r"] assms fst_fetch_trace [OF assms(2)]
  by (simp add: wbg_remove_background_from_url_def wbg_remove_background_from_url_body_def
      case_prod_beta)

lemma wbg_base64_session:
  assumes "model g = None" and "b64decode env (image_base64 r) = Inr data"
    and "Image_open env data = Inr im"
  shows "model (snd (wbg_remove_background_from_base64 env g r)) =
           (case WithoutBG_opensource env of Inl e \<Rightarrow> None | Inr m \<Rightarrow> Some m)"
  using wbg_process_session [OF assms(1,3), of "bgcolor r"] assms(2)
  by (simp add: wbg_remove_background_from_base64_def wbg_remove_background_from_base64_body_def
      case_prod_beta)

text \<open>A request that is answered with an image while no session was there has created it.\<close>

lemma v2_process_answered:
  assumes "session g = None" and "fst (v2_process env g bgc data) = Inr resp"
  shows "\<exists>s. new_session env ''u2netp'' = Inr s
            \<and> session (snd (v2_process env g bgc data)) = Some s
            \<and> created (trace (snd (v2_process env g bgc data))) = created (trace g) + 1"
  using assms
  by (auto simp add: v2_process_def v2_init_session_None Let_def split: sum.splits)

lemma wbg_process_answered:
  assumes "model g = None" and "fst (wbg_process env g bgc data) = Inr resp"
  shows "\<exists>m. WithoutBG_opensource env = Inr m
            \<and> model (snd (wbg_process env g bgc data)) = Some m
            \<and> created (trace (snd (wbg_process env g bgc data))) = created (trace g) + 1"
  using assms
  by (auto simp add: wbg_process_def wbg_run_model_def get_model_None Let_def split: sum.splits)

lemma v2_app_answered:
  assumes "session g = None" and "fst (v2_app env g r) = Inr resp"
  shows "\<exists>s. new_session env ''u2netp'' = Inr s
            \<and> session (snd (v2_app env g r)) = Some s
            \<and> created (trace (snd (v2_app env g r))) = created (trace g) + 1"
proof (cases r)
  case (Upload up)
  with assms show ?thesis
    by (auto simp add: v2_remove_background_def v2_remove_background_body_def
        v2_init_session_None Let_def split: sum.splits if_splits)
next
  case (FromUrl q)
  let ?g = "snd (fetch env (image_url q) g)"
  have s: "session ?g = None" and c: "created (trace ?g) = created (trace g)"
    using assms(1) by (simp_all add: snd_fetch)
  obtain data where d: "fst (fetch env (image_url q) g) = Inr data"
    and p: "fst (v2_process env ?g (bgcolor q) data) = Inr resp"
    using assms(2) FromUrl
    by (cases "fst (fetch env (image_url q) g)")
       (auto simp add: v2_remove_background_from_url_def v2_remove_background_from_url_body_def
         case_prod_beta dest: except_Exception_response)
  from v2_process_answered [OF s p] FromUrl d c show ?thesis
    by (simp add: v2_remove_background_from_url_def v2_remove_background_from_url_body_def
        case_prod_beta)
next
  case (FromBase64 q)
  obtain data where d: "b64decode env (image_base64 q) = Inr data"
    and p: "fst (v2_process env g (bgcolor q) data) = Inr resp"
    using assms(2) FromBase64
    by (cases "b64decode env (image_base64 q)")
       (auto simp add: v2_remove_background_from_base64_def
         v2_remove_background_from_base64_body_def case_prod_beta
         dest: except_Exception_response)
  from v2_process_answered [OF assms(1) p] FromBase64 d show ?thesis
    by (simp add: v2_remove_background_from_base64_def v2_remove_background_from_base64_body_def
        case_prod_beta)
qed

lemma wbg_app_answered:
  assumes "model g = None" and "fst (wbg_app env g r) = Inr resp"
  shows "\<exists>m. WithoutBG_opensource env = Inr m
            \<and> model (snd (wbg_app env g r)) = Some m
            \<and> created (trace (snd (wbg_app env g r))) = created (trace g) + 1"
proof (cases r)
  case (Upload up)
  with assms show ?thesis
    by (auto simp add: wbg_remove_background_def wbg_remove_background_body_def
        wbg_run_model_def get_model_None Let_def split: sum.splits if_splits)
next
  case (FromUrl q)
  let ?g = "snd (fetch env (image_url q) g)"
  have s: "model ?g = None" and c: "created (trace ?g) = created (trace g)"
    using assms(1) by (simp_all add: snd_fetch)
  obtain data where d: "fst (fetch env (image_url q) g) = Inr data"
    and p: "fst (wbg_process env ?g (bgcolor q) data) = Inr resp"
    using assms(2) FromUrl
    by (cases "fst (fetch env (image_url q) g)")
       (auto simp add: wbg_remove_background_from_url_def wbg_remove_background_from_url_body_def
         case_prod_beta dest: except_Exception_response)
  from wbg_process_answered [OF s p] FromUrl d c show ?thesis
    by (simp add: wbg_remove_background_from_url_def wbg_remove_background_from_url_body_def
        case_prod_beta)
next
  case (FromBase64 q)
  obtain data where d: "b64decode env (image_base64 q) = Inr data"
    and p: "fst (wbg_process env g (bgcolor q) data) = Inr resp"
    using assms(2) FromBase64
    by (cases "b64decode env (image_base64 q)")
       (auto simp add: wbg_remove_background_from_base64_def
         wbg_remove_background_from_base64_body_def case_prod_beta
         dest: except_Exception_response)
  from wbg_process_answered [OF assms(1) p] FromBase64 d show ?thesis
    by (simp add: wbg_remove_background_from_base64_def wbg_remove_background_from_base64_body_def
        case_prod_beta)
qed

text \<open>Once set, the global stays what it is through any further requests.\<close>

lemma v2_serve_cached: "session g = Some s \<Longrightarrow> session (v2_serve env g rs) = Some s"
proof (induction rs arbitrary: g)
  case Nil
  then show ?case by simp
next
  case (Cons r rs)
  from v2_app_cached [OF Cons.prems, of env r] have "session (snd (v2_app env g r)) = Some s"
    by simp
  from Cons.IH [OF this] show ?case by simp
qed

lemma wbg_serve_cached: "model g = Some m \<Longrightarrow> model (wbg_serve env g rs) = Some m"
proof (induction rs arbitrary: g)
  case Nil
  then show ?case by simp
next
  case (Cons r rs)
  from wbg_app_cached [OF Cons.prems, of env r] have "model (snd (wbg_app env g r)) = Some m"
    by simp
  from Cons.IH [OF this] show ?case by simp
qed

text \<open>
  C6. On both servers that create the session on first use. For every list of requests
  served one after the other from the start of the process, at most one session is
  created, and one has been created exactly when the global is set. Once the global is
  set, a request leaves it as it is and makes no call that creates a session, and so
  does any list of further requests. While it is not set: a request that is answered
  with an image has created the session and set the global to it, and it stays set to
  it through every later request; and a request that gets as far as the lazy block (an
  upload within the size cap; a URL or base64 request whose input was obtained and
  opened; on the withoutBG server the upload must open as an image too) leaves the
  global set to what the creation returned, or unset when the creation raised.
\<close>

theorem session_created_at_most_once:
  "created (trace (v2_serve env v2_start rs)) \<le> 1
   \<and> (session (v2_serve env v2_start rs) = None) = (created (trace (v2_serve env v2_start rs)) = 0)
   \<and> (\<forall>g r s. session g = Some s \<longrightarrow>
         session (snd (v2_app env g r)) = Some s
       \<and> filter is_init (trace (snd (v2_app env g r))) = filter is_init (trace g))
   \<and> (\<forall>g s. session g = Some s \<longrightarrow> session (v2_serve env g rs) = Some s)
   \<and> (\<forall>g r resp. session g = None \<and> fst (v2_app env g r) = Inr resp \<longrightarrow>
         (\<exists>s. new_session env ''u2netp'' = Inr s
            \<and> session (snd (v2_app env g r)) = Some s
            \<and> created (trace (snd (v2_app env g r))) = created (trace g) + 1))
   \<and> (\<forall>r resp. fst (v2_app env v2_start r) = Inr resp \<longrightarrow>
         (\<exists>s. new_session env ''u2netp'' = Inr s
            \<and> session (v2_serve env v2_start (r # rs)) = Some s))
   \<and> (\<forall>g up. session g = None \<and> length (file_read up) \<le> 10 * 1024 * 1024 \<longrightarrow>
         session (snd (v2_remove_background env g up)) =
           (case new_session env ''u2netp'' of Inl e \<Rightarrow> None | Inr s \<Rightarrow> Some s))
   \<and> (\<forall>g r data im. session g = None \<and> fst (fetch env (image_url r) g) = Inr data
         \<and> Image_open env data = Inr im \<longrightarrow>
         session (snd (v2_remove_background_from_url env g r)) =
           (case new_session env ''u2netp'' of Inl e \<Rightarrow> None | Inr s \<Rightarrow> Some s))
   \<and> (\<forall>g r data im. session g = None \<and> b64decode env (image_base64 r) = Inr data
         \<and> Image_open env data = Inr im \<longrightarrow>
         session (snd (v2_remove_background_from_base64 env g r)) =
           (case new_session env ''u2netp'' of Inl e \<Rightarrow> None | Inr s \<Rightarrow> Some s))
   \<and> created (trace (wbg_serve env wbg_start rs)) \<le> 1
   \<and> (model (wbg_serve env wbg_start rs) = None) = (created (trace (wbg_serve env wbg_start rs)) = 0)
   \<and> (\<forall>g r m. model g = Some m \<longrightarrow>
         model (snd (wbg_app env g r)) = Some m
       \<and> filter is_init (trace (snd (wbg_app env g r))) = filter is_init (trace g))
   \<and> (\<forall>g m. model g = Some m \<longrightarrow> model (wbg_serve env g rs) = Some m)
   \<and> (\<forall>g r resp. model g = None \<and> fst (wbg_app env g r) = Inr resp \<longrightarrow>
         (\<exists>m. WithoutBG_opensource env = Inr m
            \<and> model (snd (wbg_app env g r)) = Some m
            \<and> created (trace (snd (wbg_app env g r))) = created (trace g) + 1))
   \<and> (\<forall>r resp. fst (wbg_app env wbg_start r) = Inr resp \<longrightarrow>
         (\<exists>m. WithoutBG_opensource env = Inr m
            \<and> model (wbg_serve env wbg_start (r # rs)) = Some m))
   \<and> (\<forall>g up im. model g = None \<and> length (file_read up) \<le> 10 * 1024 * 1024
         \<and> Image_open env (file_read up) = Inr im \<longrightarrow>
         model (snd (wbg_remove_background env g up)) =
           (case WithoutBG_opensource env of Inl e \<Rightarrow> None | Inr m \<Rightarrow> Some m))
   \<and> (\<forall>g r data im. model g = None \<and> fst (fetch env (image_url r) g) = Inr data
         \<and> Image_open env data = Inr im \<longrightarrow>
         model (snd (wbg_remove_background_from_url env g r)) =
           (case WithoutBG_opensource env of Inl e \<Rightarrow> None | Inr m \<Rightarrow> Some m))
   \<and> (\<forall>g r data im. model g = None \<and> b64decode env (image_base64 r) = Inr data
         \<and> Image_open env data = Inr im \<longrightarrow>
         model (snd (wbg_remove_background_from_base64 env g r)) =
           (case WithoutBG_opensource env of Inl e \<Rightarrow> None | Inr m \<Rightarrow> Some m))"
proof -
  have i2: "(session (v2_serve env v2_start rs) = None \<and> created (trace (v2_serve env v2_start rs)) = 0)
       \<or> (session (v2_serve env v2_start rs) \<noteq> None \<and> created (trace (v2_serve env v2_start rs)) = 1)"
    by (rule v2_serve_invariant) (simp add: v2_start_def)
  have i3: "(model (wbg_serve env wbg_start rs) = None \<and> created (trace (wbg_serve env wbg_start rs)) = 0)
       \<or> (model (wbg_serve env wbg_start rs) \<noteq> None \<and> created (trace (wbg_serve env wbg_start rs)) = 1)"
    by (rule wbg_serve_invariant) (simp add: wbg_start_def)
  have a: "created (trace (v2_serve env v2_start rs)) \<le> 1"
    and b: "(session (v2_serve env v2_start rs) = None) = (created (trace (v2_serve env v2_start rs)) = 0)"
    using i2 by auto
  have c: "created (trace (wbg_serve env wbg_start rs)) \<le> 1"
    and d: "(model (wbg_serve env wbg_start rs) = None) = (created (trace (wbg_serve env wbg_start rs)) = 0)"
    using i3 by auto
  have e: "\<exists>s. new_session env ''u2netp'' = Inr s
            \<and> session (snd (v2_app env g r)) = Some s
            \<and> created (trace (snd (v2_app env g r))) = created (trace g) + 1"
    if "session g = None \<and> fst (v2_app env g r) = Inr resp" for g :: "'a v2_globals" and r resp
    using that v2_app_answered [of g env r resp] by simp
  have f: "\<exists>m. WithoutBG_opensource env = Inr m
            \<and> model (snd (wbg_app env g r)) = Some m
            \<and> created (trace (snd (wbg_app env g r))) = created (trace g) + 1"
    if "model g = None \<and> fst (wbg_app env g r) = Inr resp" for g :: "'a wbg_globals" and r resp
    using that wbg_app_answered [of g env r resp] by simp
  have e': "\<exists>s. new_session env ''u2netp'' = Inr s
            \<and> session (v2_serve env v2_start (r # rs)) = Some s"
    if "fst (v2_app env v2_start r) = Inr resp" for r resp
  proof -
    have "session (v2_start :: 'a v2_globals) = None" by (simp add: v2_start_def)
    from v2_app_answered [OF this that] obtain s where
      "new_session env ''u2netp'' = Inr s" "session (snd (v2_app env v2_start r)) = Some s"
      by blast
    then show ?thesis using v2_serve_cached [of "snd (v2_app env v2_start r)" s env rs] by simp
  qed
  have f': "\<exists>m. WithoutBG_opensource env = Inr m
            \<and> model (wbg_serve env wbg_start (r # rs)) = Some m"
    if "fst (wbg_app env wbg_start r) = Inr resp" for r resp
  proof -
    have "model (wbg_start :: 'a wbg_globals) = None" by (simp add: wbg_start_def)
    from wbg_app_answered [OF this that] obtain m where
      "WithoutBG_opensource env = Inr m" "model (snd (wbg_app env wbg_start r)) = Some m"
      by blast
    then show ?thesis using wbg_serve_cached [of "snd (wbg_app env wbg_start r)" m env rs] by simp
  qed
  show ?thesis
    apply (intro conjI)
                     apply (rule a)
                    apply (rule b)
                   apply (intro allI impI, erule v2_app_cached)
                  apply (intro allI impI, erule v2_serve_cached)
                 apply (intro allI impI, erule e)
                apply (intro allI impI, erule e')
               apply (intro allI impI, elim conjE, erule (1) v2_upload_session)
              apply (intro allI impI, elim conjE, erule (2) v2_url_session)
             apply (intro allI impI, elim conjE, erule (2) v2_base64_session)
            apply (rule c)
           apply (rule d)
          apply (intro allI impI, erule wbg_app_cached)
         apply (intro allI impI, erule wbg_serve_cached)
        apply (intro allI impI, erule f)
       apply (intro allI impI, erule f')
      apply (intro allI impI, elim conjE, erule (2) wbg_upload_session)
     apply (intro allI impI, elim conjE, erule (2) wbg_url_session)
    apply (intro allI impI, elim conjE, erule (2) wbg_base64_session)
    done
qed

lemma demo_calls:
  "http_get demo_env ''http://ok'' 30 = Inr \<lparr>httpx_status = 200, httpx_content = [1]\<rparr>"
  "Image_open demo_env [1] = Inr demo_image"
  "new_session demo_env ''u2netp'' = Inr 7"
  "WithoutBG_opensource demo_env = Inr 7"
  "remove_image demo_env demo_image 7 = Inr demo_cutout"
  "model_remove_background demo_env 7 demo_image = Inr demo_cutout"
  "remove_bytes demo_env bs 7 = Inr [2]"
  "Image_save demo_env demo_cutout ''PNG'' None = Inr [2]"
  by (simp_all add: demo_env_def)

lemma demo_steps:
  "v2_app demo_env v2_start (FromUrl (demo_url_request ''http://ok'' None)) =
     (Inr \<lparr>status_code = 200, content = [2], media_type = ''image/png'', headers = []\<rparr>,
      \<lparr>trace = [HttpGet ''http://ok'' 30, ModelInit True, ModelRun], session = Some 7\<rparr>)"
  "v2_app demo_env \<lparr>trace = [HttpGet ''http://ok'' 30, ModelInit True, ModelRun], session = Some 7\<rparr>
       (FromBase64 (demo_base64_request ''AQ=='' None)) =
     (Inr \<lparr>status_code = 200, content = [2], media_type = ''image/png'', headers = []\<rparr>,
      \<lparr>trace = [HttpGet ''http://ok'' 30, ModelInit True, ModelRun, ModelRun], session = Some 7\<rparr>)"
  "v2_app demo_env
       \<lparr>trace = [HttpGet ''http://ok'' 30, ModelInit True, ModelRun, ModelRun], session = Some 7\<rparr>
       (Upload (demo_upload 3)) =
     (Inr \<lparr>status_code = 200, content = [2], media_type = ''image/png'',
           headers = [(''Content-Disposition'', ''inline; filename=\"processed_cat.jpg\"'')]\<rparr>,
      \<lparr>trace = [HttpGet ''http://ok'' 30, ModelInit True, ModelRun, ModelRun, ModelRun],
        session = Some 7\<rparr>)"
  "wbg_app demo_env wbg_start (FromUrl (demo_url_request ''http://ok'' None)) =
     (Inr \<lparr>status_code = 200, content = [2], media_type = ''image/png'', headers = []\<rparr>,
      \<lparr>trace = [HttpGet ''http://ok'' 30, ModelInit True, ModelRun], model = Some 7\<rparr>)"
  "wbg_app demo_env \<lparr>trace = [HttpGet ''http://ok'' 30, ModelInit True, ModelRun], model = Some 7\<rparr>
       (FromBase64 (demo_base64_request ''AQ=='' None)) =
     (Inr \<lparr>status_code = 200, content = [2], media_type = ''image/png'', headers = []\<rparr>,
      \<lparr>trace = [HttpGet ''http://ok'' 30, ModelInit True, ModelRun, ModelRun], model = Some 7\<rparr>)"
  "wbg_app demo_env
       \<lparr>trace = [HttpGet ''http://ok'' 30, ModelInit True, ModelRun, ModelRun], model = Some 7\<rparr>
       (Upload (demo_upload 3)) =
     (Inr \<lparr>status_code = 200, content = [2], media_type = ''image/png'',
           headers = [(''Content-Disposition'', ''inline; filename=\"processed_cat.jpg\"'')]\<rparr>,
      \<lparr>trace = [HttpGet ''http://ok'' 30, ModelInit True, ModelRun, ModelRun, ModelRun],
        model = Some 7\<rparr>)"
proof -
  have l: "length (file_read (demo_upload 3)) = 3"
    by (simp add: demo_upload_def)
  have o: "Image_open demo_env (file_read (demo_upload 3)) = Inr demo_image"
    by (simp add: demo_upload_open)
  note defs = v2_remove_background_def v2_remove_background_body_def
    v2_remove_background_from_url_def v2_remove_background_from_url_body_def
    v2_remove_background_from_base64_def v2_remove_background_from_base64_body_def
    wbg_remove_background_def wbg_remove_background_body_def
    wbg_remove_background_from_url_def wbg_remove_background_from_url_body_def
    wbg_remove_background_from_base64_def wbg_remove_background_from_base64_body_def
    v2_process_def wbg_process_def wbg_run_model_def v2_init_session_def get_model_def
    fetch_def raise_for_status_def Let_def v2_start_def wbg_start_def
  show "v2_app demo_env v2_start (FromUrl (demo_url_request ''http://ok'' None)) =
     (Inr \<lparr>status_code = 200, content = [2], media_type = ''image/png'', headers = []\<rparr>,
      \<lparr>trace = [HttpGet ''http://ok'' 30, ModelInit True, ModelRun], session = Some 7\<rparr>)"
    by (simp add: defs demo_calls demo_encode)
  show "v2_app demo_env \<lparr>trace = [HttpGet ''http://ok'' 30, ModelInit True, ModelRun], session = Some 7\<rparr>
       (FromBase64 (demo_base64_request ''AQ=='' None)) =
     (Inr \<lparr>status_code = 200, content = [2], media_type = ''image/png'', headers = []\<rparr>,
      \<lparr>trace = [HttpGet ''http://ok'' 30, ModelInit True, ModelRun, ModelRun], session = Some 7\<rparr>)"
    by (simp add: defs demo_calls demo_encode)
  show "v2_app demo_env
       \<lparr>trace = [HttpGet ''http://ok'' 30, ModelInit True, ModelRun, ModelRun], session = Some 7\<rparr>
       (Upload (demo_upload 3)) =
     (Inr \<lparr>status_code = 200, content = [2], media_type = ''image/png'',
           headers = [(''Content-Disposition'', ''inline; filename=\"processed_cat.jpg\"'')]\<rparr>,
      \<lparr>trace = [HttpGet ''http://ok'' 30, ModelInit True, ModelRun, ModelRun, ModelRun],
        session = Some 7\<rparr>)"
    by (simp add: defs demo_calls l demo_upload_response)
  show "wbg_app demo_env wbg_start (FromUrl (demo_url_request ''http://ok'' None)) =
     (Inr \<lparr>status_code = 200, content = [2], media_type = ''image/png'', headers = []\<rparr>,
      \<lparr>trace = [HttpGet ''http://ok'' 30, ModelInit True, ModelRun], model = Some 7\<rparr>)"
    by (simp add: defs demo_calls demo_encode)
  show "wbg_app demo_env \<lparr>trace = [HttpGet ''http://ok'' 30, ModelInit True, ModelRun], model = Some 7\<rparr>
       (FromBase64 (demo_base64_request ''AQ=='' None)) =
     (Inr \<lparr>status_code = 200, content = [2], media_type = ''image/png'', headers = []\<rparr>,
      \<lparr>trace = [HttpGet ''http://ok'' 30, ModelInit True, ModelRun, ModelRun], model = Some 7\<rparr>)"
    by (simp add: defs demo_calls demo_encode)
  show "wbg_app demo_env
       \<lparr>trace = [HttpGet ''http://ok'' 30, ModelInit True, ModelRun, ModelRun], model = Some 7\<rparr>
       (Upload (demo_upload 3)) =
     (Inr \<lparr>status_code = 200, content = [2], media_type = ''image/png'',
           headers = [(''Content-Disposition'', ''inline; filename=\"processed_cat.jpg\"'')]\<rparr>,
      \<lparr>trace = [HttpGet ''http://ok'' 30, ModelInit True, ModelRun, ModelRun, ModelRun],
        model = Some 7\<rparr>)"
    by (simp add: defs demo_calls l o demo_upload_response)
qed

theorem session_created_at_most_once_witness:
  "v2_serve demo_env v2_start
      [FromUrl (demo_url_request ''http://ok'' None), FromBase64 (demo_base64_request ''AQ=='' None),
       Upload (demo_upload 3)]
     = \<lparr>trace = [HttpGet ''http://ok'' 30, ModelInit True, ModelRun, ModelRun, ModelRun],
        session = Some 7\<rparr>
   \<and> created (trace (v2_serve demo_env v2_start
      [FromUrl (demo_url_request ''http://ok'' None), FromBase64 (demo_base64_request ''AQ=='' None),
       Upload (demo_upload 3)])) = 1
   \<and> session (v2_start :: nat v2_globals) = None
   \<and> fst (v2_app demo_env v2_start (FromUrl (demo_url_request ''http://ok'' None))) =
       Inr \<lparr>status_code = 200, content = [2], media_type = ''image/png'', headers = []\<rparr>
   \<and> new_session demo_env ''u2netp'' = Inr 7
   \<and> session (snd (v2_app demo_env v2_start (FromUrl (demo_url_request ''http://ok'' None)))) = Some 7
   \<and> session (snd (v2_app demo_env
        \<lparr>trace = [HttpGet ''http://ok'' 30, ModelInit True, ModelRun], session = Some 7\<rparr>
        (FromBase64 (demo_base64_request ''AQ=='' None)))) = Some 7
   \<and> filter is_init (trace (snd (v2_app demo_env
        \<lparr>trace = [HttpGet ''http://ok'' 30, ModelInit True, ModelRun], session = Some 7\<rparr>
        (FromBase64 (demo_base64_request ''AQ=='' None))))) = [ModelInit True]
   \<and> session (snd (v2_remove_background demo_env v2_start (demo_upload 3))) = Some 7
   \<and> session (snd (v2_remove_background_from_url demo_env v2_start
        (demo_url_request ''http://ok'' None))) = Some 7
   \<and> session (snd (v2_remove_background_from_base64 demo_env v2_start
        (demo_base64_request ''AQ=='' None))) = Some 7
   \<and> wbg_serve demo_env wbg_start
      [FromUrl (demo_url_request ''http://ok'' None), FromBase64 (demo_base64_request ''AQ=='' None),
       Upload (demo_upload 3)]
     = \<lparr>trace = [HttpGet ''http://ok'' 30, ModelInit True, ModelRun, ModelRun, ModelRun],
        model = Some 7\<rparr>
   \<and> created (trace (wbg_serve demo_env wbg_start
      [FromUrl (demo_url_request ''http://ok'' None), FromBase64 (demo_base64_request ''AQ=='' None),
       Upload (demo_upload 3)])) = 1
   \<and> model (wbg_start :: nat wbg_globals) = None
   \<and> fst (wbg_app demo_env wbg_start (FromUrl (demo_url_request ''http://ok'' None))) =
       Inr \<lparr>status_code = 200, content = [2], media_type = ''image/png'', headers = []\<rparr>
   \<and> WithoutBG_opensource demo_env = Inr 7
   \<and> model (snd (wbg_app demo_env wbg_start (FromUrl (demo_url_request ''http://ok'' None)))) = Some 7
   \<and> model (snd (wbg_app demo_env
        \<lparr>trace = [HttpGet ''http://ok'' 30, ModelInit True, ModelRun], model = Some 7\<rparr>
        (FromBase64 (demo_base64_request ''AQ=='' None)))) = Some 7
   \<and> filter is_init (trace (snd (wbg_app demo_env
        \<lparr>trace = [HttpGet ''http://ok'' 30, ModelInit True, ModelRun], model = Some 7\<rparr>
        (FromBase64 (demo_base64_request ''AQ=='' None))))) = [ModelInit True]
   \<and> model (snd (wbg_remove_background demo_env wbg_start (demo_upload 3))) = Some 7
   \<and> model (snd (wbg_remove_background_from_url demo_env wbg_start
        (demo_url_request ''http://ok'' None))) = Some 7
   \<and> model (snd (wbg_remove_background_from_base64 demo_env wbg_start
        (demo_base64_request ''AQ=='' None))) = Some 7"
proof -
  let ?u = "FromUrl (demo_url_request ''http://ok'' None)"
  let ?b = "FromBase64 (demo_base64_request ''AQ=='' None)"
  let ?p = "Upload (demo_upload 3)"
  let ?ur = "demo_url_request ''http://ok'' None"
  let ?br = "demo_base64_request ''AQ=='' None"
  let ?png = "\<lparr>status_code = 200, content = [2], media_type = ''image/png'', headers = []\<rparr>"
  let ?g2 = "\<lparr>trace = [HttpGet ''http://ok'' 30, ModelInit True, ModelRun], session = Some (7::nat)\<rparr>"
  let ?g3 = "\<lparr>trace = [HttpGet ''http://ok'' 30, ModelInit True, ModelRun], model = Some (7::nat)\<rparr>"
  note t = session_created_at_most_once [of demo_env "[?b, ?p]"]
  note t' = session_created_at_most_once [of demo_env "[?u, ?b, ?p]"]
  have s2: "v2_serve demo_env v2_start [?u, ?b, ?p]
     = \<lparr>trace = [HttpGet ''http://ok'' 30, ModelInit True, ModelRun, ModelRun, ModelRun],
        session = Some 7\<rparr>"
    and s3: "wbg_serve demo_env wbg_start [?u, ?b, ?p]
     = \<lparr>trace = [HttpGet ''http://ok'' 30, ModelInit True, ModelRun, ModelRun, ModelRun],
        model = Some 7\<rparr>"
    by (simp_all only: v2_serve.simps wbg_serve.simps demo_steps snd_conv)
  have n2: "session (v2_start :: nat v2_globals) = None"
    and n3: "model (wbg_start :: nat wbg_globals) = None"
    by (simp_all add: v2_start_def wbg_start_def)
  have a2: "fst (v2_app demo_env v2_start ?u) = Inr ?png"
    and a3: "fst (wbg_app demo_env wbg_start ?u) = Inr ?png"
    by (simp_all only: demo_steps fst_conv)
  have c2: "session ?g2 = Some 7" and c3: "model ?g3 = Some 7" by simp_all
  have l: "length (file_read (demo_upload 3)) \<le> 10 * 1024 * 1024"
    by (simp add: demo_upload_def)
  have o: "Image_open demo_env (file_read (demo_upload 3)) = Inr demo_image"
    by (simp add: demo_upload_open)
  have fu2: "fst (fetch demo_env (image_url ?ur) v2_start) = Inr [1]"
    and fu3: "fst (fetch demo_env (image_url ?ur) wbg_start) = Inr [1]"
    and db: "b64decode demo_env (image_base64 ?br) = Inr [1]"
    by (simp_all add: demo_reach)
  note le2 = t' [THEN conjunct1]
  note eq2 = t' [THEN conjunct2, THEN conjunct1]
  have k2: "created (trace (v2_serve demo_env v2_start [?u, ?b, ?p])) = 1"
    using le2 eq2 unfolding s2 by simp
  note w = t' [THEN conjunct2, THEN conjunct2, THEN conjunct2, THEN conjunct2, THEN conjunct2,
      THEN conjunct2, THEN conjunct2, THEN conjunct2, THEN conjunct2]
  note le3 = w [THEN conjunct1]
  note eq3 = w [THEN conjunct2, THEN conjunct1]
  have k3: "created (trace (wbg_serve demo_env wbg_start [?u, ?b, ?p])) = 1"
    using le3 eq3 unfolding s3 by simp
  note v = t [THEN conjunct2, THEN conjunct2]
  note cached2 = v [THEN conjunct1, rule_format, OF c2, of ?b]
  note answered2 = v [THEN conjunct2, THEN conjunct2, THEN conjunct1, rule_format, OF conjI [OF n2 a2]]
  note later2 = v [THEN conjunct2, THEN conjunct2, THEN conjunct2, THEN conjunct1, rule_format, OF a2]
  note up2 = v [THEN conjunct2, THEN conjunct2, THEN conjunct2, THEN conjunct2, THEN conjunct1,
      rule_format, OF conjI [OF n2 l]]
  note url2 = v [THEN conjunct2, THEN conjunct2, THEN conjunct2, THEN conjunct2, THEN conjunct2,
      THEN conjunct1, rule_format, OF conjI [OF n2 conjI [OF fu2 demo_calls(2)]]]
  note b642 = v [THEN conjunct2, THEN conjunct2, THEN conjunct2, THEN conjunct2, THEN conjunct2,
      THEN conjunct2, THEN conjunct1, rule_format, OF conjI [OF n2 conjI [OF db demo_calls(2)]]]
  note x = t [THEN conjunct2, THEN conjunct2, THEN conjunct2, THEN conjunct2, THEN conjunct2,
      THEN conjunct2, THEN conjunct2, THEN conjunct2, THEN conjunct2, THEN conjunct2, THEN conjunct2]
  note cached3 = x [THEN conjunct1, rule_format, OF c3, of ?b]
  note answered3 = x [THEN conjunct2, THEN conjunct2, THEN conjunct1, rule_format, OF conjI [OF n3 a3]]
  note later3 = x [THEN conjunct2, THEN conjunct2, THEN conjunct2, THEN conjunct1, rule_format, OF a3]
  note up3 = x [THEN conjunct2, THEN conjunct2, THEN conjunct2, THEN conjunct2, THEN conjunct1,
      rule_format, OF conjI [OF n3 conjI [OF l o]]]
  note url3 = x [THEN conjunct2, THEN conjunct2, THEN conjunct2, THEN conjunct2, THEN conjunct2,
      THEN conjunct1, rule_format, OF conjI [OF n3 conjI [OF fu3 demo_calls(2)]]]
  note b643 = x [THEN conjunct2, THEN conjunct2, THEN conjunct2, THEN conjunct2, THEN conjunct2,
      THEN conjunct2, rule_format, OF conjI [OF n3 conjI [OF db demo_calls(2)]]]
  have q2: "session (snd (v2_app demo_env v2_start ?u)) = Some 7"
    using answered2 by (simp del: v2_app.simps add: demo_calls)
  have q3: "model (snd (wbg_app demo_env wbg_start ?u)) = Some 7"
    using answered3 by (simp del: wbg_app.simps add: demo_calls)
  have r2: "session (snd (v2_app demo_env ?g2 ?b)) = Some 7"
      "filter is_init (trace (snd (v2_app demo_env ?g2 ?b))) = [ModelInit True]"
    using cached2 by (simp_all del: v2_app.simps)
  have r3: "model (snd (wbg_app demo_env ?g3 ?b)) = Some 7"
      "filter is_init (trace (snd (wbg_app demo_env ?g3 ?b))) = [ModelInit True]"
    using cached3 by (simp_all del: wbg_app.simps)
  have e2: "session (snd (v2_remove_background demo_env v2_start (demo_upload 3))) = Some 7"
      "session (snd (v2_remove_background_from_url demo_env v2_start ?ur)) = Some 7"
      "session (snd (v2_remove_background_from_base64 demo_env v2_start ?br)) = Some 7"
    using up2 url2 b642 by (simp_all add: demo_calls)
  have e3: "model (snd (wbg_remove_background demo_env wbg_start (demo_upload 3))) = Some 7"
      "model (snd (wbg_remove_background_from_url demo_env wbg_start ?ur)) = Some 7"
      "model (snd (wbg_remove_background_from_base64 demo_env wbg_start ?br)) = Some 7"
    using up3 url3 b643 by (simp_all add: demo_calls)
  show ?thesis
    using s2 s3 k2 k3 n2 n3 a2 a3 demo_calls(3,4) q2 q3 r2 r3 e2 e3 later2 later3 by blast
qed

end
